theory Spec2Isabelle
  imports Main "HOL-Library.AList"
begin

section \<open>Python values, exceptions and the primitive operations the client uses\<close>

text \<open>
  The client is dynamically typed Python 2. A value is one of the shapes a decoded JSON
  document or a caller-supplied argument can take. Floats are outside the model.
  \<open>PSpatialReference d\<close> is an instance of \<open>common.geometry.SpatialReference\<close> whose
  \<open>as_dict\<close> property is \<open>d\<close>; \<open>PObject n\<close> is an instance of any other class.
  A dict is an association list with string keys, read through \<open>map_of\<close>.
\<close>

datatype pyval =
    PNone
  | PBool bool
  | PInt int
  | PStr string
  | PList "pyval list"
  | PDict "(string \<times> pyval) list"
  | PSpatialReference pyval
  | PObject string

type_synonym pydict = "(string \<times> pyval) list"

datatype exn =
    KeyError string
  | TypeError
  | AttributeError
  | ValueError pyval
  | Exception string
  | TransportError string

text \<open>\<open>d[k] = v\<close> on a dict, and \<open>d.update(e)\<close> (also the loop \<open>for k, v in e.items(): d[k] = v\<close>).\<close>

definition dict_set :: "string \<Rightarrow> pyval \<Rightarrow> pydict \<Rightarrow> pydict" where
  "dict_set k v d = AList.update k v d"

definition dict_update :: "pydict \<Rightarrow> pydict \<Rightarrow> pydict" where
  "dict_update d e = foldr (\<lambda>(k, v). dict_set k v) e d"

text \<open>\<open>str.lower()\<close> on ASCII text.\<close>

definition lower_char :: "char \<Rightarrow> char" where
  "lower_char c =
     (let n = (of_char c :: nat) in if 65 \<le> n \<and> n \<le> 90 then char_of (n + 32) else c)"

definition lower :: "string \<Rightarrow> string" where
  "lower s = map lower_char s"

text \<open>\<open>v.lower()\<close>: only strings have the method.\<close>

definition py_lower :: "pyval \<Rightarrow> exn + string" where
  "py_lower v = (case v of PStr s \<Rightarrow> Inr (lower s) | _ \<Rightarrow> Inl AttributeError)"

text \<open>\<open>v[k]\<close> with a string key.\<close>

definition py_getitem :: "pyval \<Rightarrow> string \<Rightarrow> exn + pyval" where
  "py_getitem v k =
     (case v of
        PDict d \<Rightarrow> (case map_of d k of None \<Rightarrow> Inl (KeyError k) | Some x \<Rightarrow> Inr x)
      | _ \<Rightarrow> Inl TypeError)"

text \<open>\<open>v + "suffix"\<close>: string concatenation.\<close>

definition py_concat :: "pyval \<Rightarrow> string \<Rightarrow> exn + string" where
  "py_concat v t = (case v of PStr s \<Rightarrow> Inr (s @ t) | _ \<Rightarrow> Inl TypeError)"

text \<open>\<open>k in v\<close> for a string \<open>k\<close>: substring of a string, element of a list, key of a dict.\<close>

fun is_infix :: "string \<Rightarrow> string \<Rightarrow> bool" where
  "is_infix p [] = (p = [])"
| "is_infix p (c # cs) = (take (length p) (c # cs) = p \<or> is_infix p cs)"

definition py_contains :: "string \<Rightarrow> pyval \<Rightarrow> exn + bool" where
  "py_contains k v =
     (case v of
        PStr s \<Rightarrow> Inr (is_infix k s)
      | PList xs \<Rightarrow> Inr (PStr k \<in> set xs)
      | PDict d \<Rightarrow> Inr (map_of d k \<noteq> None)
      | _ \<Rightarrow> Inl TypeError)"

text \<open>\<open>v == False\<close> and \<open>v == True\<close>: Python compares \<open>0\<close> and \<open>1\<close> equal to them.\<close>

definition py_eq_bool :: "pyval \<Rightarrow> bool \<Rightarrow> bool" where
  "py_eq_bool v b =
     (case v of PBool c \<Rightarrow> c = b | PInt i \<Rightarrow> i = (if b then 1 else 0) | _ \<Rightarrow> False)"

text \<open>Truth value of \<open>if v:\<close>.\<close>

definition py_truthy :: "pyval \<Rightarrow> bool" where
  "py_truthy v =
     (case v of
        PNone \<Rightarrow> False
      | PBool b \<Rightarrow> b
      | PInt i \<Rightarrow> i \<noteq> 0
      | PStr s \<Rightarrow> s \<noteq> []
      | PList xs \<Rightarrow> xs \<noteq> []
      | PDict d \<Rightarrow> d \<noteq> []
      | _ \<Rightarrow> True)"

text \<open>\<open>isinstance(v, dict)\<close>, \<open>isinstance(v, list)\<close>, \<open>isinstance(v, bool)\<close>.\<close>

definition is_dict :: "pyval \<Rightarrow> bool" where
  "is_dict v = (case v of PDict _ \<Rightarrow> True | _ \<Rightarrow> False)"

definition is_list :: "pyval \<Rightarrow> bool" where
  "is_list v = (case v of PList _ \<Rightarrow> True | _ \<Rightarrow> False)"

definition is_bool :: "pyval \<Rightarrow> bool" where
  "is_bool v = (case v of PBool _ \<Rightarrow> True | _ \<Rightarrow> False)"

text \<open>Decimal rendering of an integer, as \<open>"%s" % n\<close> prints it.\<close>

definition digit_char :: "nat \<Rightarrow> char" where
  "digit_char d = char_of (d + 48)"

fun decimal :: "nat \<Rightarrow> string" where
  "decimal n = (if 10 \<le> n then decimal (n div 10) @ [digit_char (n mod 10)] else [digit_char n])"

declare decimal.simps [simp del]

definition py_int_str :: "int \<Rightarrow> string" where
  "py_int_str i = (if 0 \<le> i then decimal (nat i) else CHR ''-'' # decimal (nat (- i)))"

section \<open>The transport collaborator and the environment\<close>

text \<open>
  A request as handed to the connection object: a GET with its parameters, a GET that
  downloads to a folder, a POST with its post data and files.
\<close>

datatype request =
    GET string pydict
  | DOWNLOAD pyval string
  | POST string pydict "(string \<times> pyval) list"

type_synonym log = "request list"

text \<open>
  The connection (\<open>connection.SiteConnection\<close>), the filesystem, the JSON encoder and the
  builtin formatting of containers are not part of the module; they are parameters.
  The transport answers a request from the history of requests sent so far; \<open>Inl\<close> is an
  exception it raises. \<open>json_dumps True\<close> is \<open>json.dumps(_, default=_date_handler)\<close>,
  \<open>json_dumps False\<close> is \<open>json.dumps(_)\<close>. \<open>urlparse_urlparse u\<close> is the exception raised by
  evaluating \<open>urlparse.urlparse(u)\<close> on the imported name \<open>urlparse\<close>, if any.
  \<open>setattr_raises k\<close> says whether \<open>setattr(self, k, v)\<close> on a descriptor raises
  \<open>AttributeError\<close>: that depends on the base class \<open>_base.BaseService\<close> (with a new-style
  base class the read-only properties \<open>uploads\<close>, \<open>layers\<close>, \<open>tables\<close> and \<open>replicas\<close>
  cannot be assigned).
\<close>

record env =
  transport :: "log \<Rightarrow> request \<Rightarrow> exn + pyval"
  isdir :: "string \<Rightarrow> bool"
  json_dumps :: "bool \<Rightarrow> pyval \<Rightarrow> exn + string"
  py_repr :: "pyval \<Rightarrow> string"
  urlparse_urlparse :: "string \<Rightarrow> exn option"
  setattr_raises :: "string \<Rightarrow> bool"

definition send :: "env \<Rightarrow> request \<Rightarrow> log \<Rightarrow> (exn + pyval) \<times> log" where
  "send E r lg = (transport E lg r, lg @ [r])"

text \<open>\<open>"%s" % v\<close>.\<close>

definition py_str :: "env \<Rightarrow> pyval \<Rightarrow> string" where
  "py_str E v =
     (case v of
        PNone \<Rightarrow> ''None''
      | PBool b \<Rightarrow> (if b then ''True'' else ''False'')
      | PInt i \<Rightarrow> py_int_str i
      | PStr s \<Rightarrow> s
      | _ \<Rightarrow> py_repr E v)"

section \<open>The layer client and the service descriptor\<close>

text \<open>
  \<open>FeatureLayer\<close> (and its subclass \<open>TableLayer\<close>, \<open>fl_table = True\<close>) and
  \<open>FeatureService\<close>. The class attributes \<open>_url\<close>, \<open>_json_dict\<close>, \<open>_layers\<close> and
  \<open>_tables\<close> are fields; \<open>None\<close> in a cache field is Python's \<open>None\<close>.

  Modelled from the spec: the base class \<open>_base.BaseService\<close> (constructor and attribute
  storage) is not part of the module. The constructor stores the url it is given, and the
  attributes merged from the server metadata ("merges every returned key into the
  descriptor's attribute set") are the association list \<open>attrs\<close>, which \<open>hasattr\<close> and
  \<open>getattr\<close> read. Whether an assignment is refused is the parameter \<open>setattr_raises\<close>.
\<close>

record FeatureLayer =
  fl_url :: string
  fl_json_dict :: pyval
  fl_attrs :: pydict
  fl_table :: bool

record FeatureService =
  fs_url :: string
  fs_json_dict :: pyval
  fs_attrs :: pydict
  fs_layers :: "FeatureLayer list option"
  fs_tables :: "FeatureLayer list option"

definition new_FeatureLayer :: "string \<Rightarrow> FeatureLayer" where
  "new_FeatureLayer u = \<lparr>fl_url = u, fl_json_dict = PNone, fl_attrs = [], fl_table = False\<rparr>"

definition new_TableLayer :: "string \<Rightarrow> FeatureLayer" where
  "new_TableLayer u = \<lparr>fl_url = u, fl_json_dict = PNone, fl_attrs = [], fl_table = True\<rparr>"

definition new_FeatureService :: "string \<Rightarrow> FeatureService" where
  "new_FeatureService u =
     \<lparr>fs_url = u, fs_json_dict = PNone, fs_attrs = [], fs_layers = None, fs_tables = None\<rparr>"

definition hasattr :: "pydict \<Rightarrow> string \<Rightarrow> bool" where
  "hasattr attrs k = (map_of attrs k \<noteq> None)"

definition getattr :: "pydict \<Rightarrow> string \<Rightarrow> pyval" where
  "getattr attrs k = (case map_of attrs k of Some v \<Rightarrow> v | None \<Rightarrow> PNone)"

section \<open>FeatureService.createReplica\<close>

text \<open>The arguments of \<open>createReplica\<close>, and the defaults of its signature.\<close>

record createReplica_args =
  replicaName :: pyval
  layers :: pyval
  layerQueries :: pyval
  geometryFilter :: pyval
  replicaSR :: pyval
  transportType :: pyval
  returnAttachments :: pyval
  returnAttachmentsDatabyURL :: pyval
  async :: pyval
  attachmentsSyncDirection :: pyval
  syncModel :: pyval
  dataFormat :: pyval
  replicaOptions :: pyval
  wait :: pyval
  out_path :: "string option"

definition createReplica_defaults :: "pyval \<Rightarrow> pyval \<Rightarrow> createReplica_args" where
  "createReplica_defaults name lyrs =
     \<lparr>replicaName = name, layers = lyrs, layerQueries = PNone, geometryFilter = PNone,
      replicaSR = PNone, transportType = PStr ''esriTransportTypeUrl'',
      returnAttachments = PBool False, returnAttachmentsDatabyURL = PBool False,
      async = PBool False, attachmentsSyncDirection = PStr ''none'', syncModel = PStr ''none'',
      dataFormat = PStr ''json'', replicaOptions = PNone, wait = PBool False,
      out_path = None\<rparr>"

text \<open>
  Lines 353-357: the capability gate. \<open>Inr True\<close> when the operation returns \<open>None\<close> at
  once; the containment test raises on a value that is no container.
\<close>

definition createReplica_gate :: "FeatureService \<Rightarrow> exn + bool" where
  "createReplica_gate s =
     (if hasattr (fs_attrs s) ''syncEnabled'' \<and> hasattr (fs_attrs s) ''capabilities'' \<and>
         py_eq_bool (getattr (fs_attrs s) ''syncEnabled'') False
      then (case py_contains ''Extract'' (getattr (fs_attrs s) ''capabilities'') of
              Inl e \<Rightarrow> Inl e
            | Inr b \<Rightarrow> Inr (\<not> b))
      else Inr False)"

text \<open>Lines 359-383: the request parameters, or the exception raised while building them.\<close>

definition dataformat :: "string list" where
  "dataformat = [''filegdb'', ''json'', ''sqlite'', ''shapefile'']"

definition createReplica_params :: "createReplica_args \<Rightarrow> exn + pydict" where
  "createReplica_params a =
     (let params = [(''f'', PStr ''json''),
                    (''replicaName'', replicaName a),
                    (''returnAttachments'', returnAttachments a),
                    (''returnAttachmentsDatabyURL'', returnAttachmentsDatabyURL a),
                    (''attachmentsSyncDirection'', attachmentsSyncDirection a),
                    (''async'', async a),
                    (''syncModel'', syncModel a),
                    (''layers'', layers a)]
      in case py_lower (dataFormat a) of
           Inl e \<Rightarrow> Inl e
         | Inr df \<Rightarrow>
             if df \<in> set dataformat then
               let params = dict_set ''dataFormat'' (PStr df) params;
                   params = (if layerQueries a \<noteq> PNone
                             then dict_set ''layerQueries'' (layerQueries a) params else params);
                   params = (case geometryFilter a of
                               PDict g \<Rightarrow> dict_update params g
                             | _ \<Rightarrow> params);
                   params = (if replicaSR a \<noteq> PNone
                             then dict_set ''replicaSR'' (replicaSR a) params else params);
                   params = (if replicaOptions a \<noteq> PNone
                             then dict_set ''replicaOptions'' (replicaOptions a) params else params);
                   params = (if transportType a \<noteq> PNone
                             then dict_set ''transportType'' (transportType a) params else params)
               in Inr params
             else Inl (Exception ''Invalid dataFormat''))"

text \<open>Lines 453-458: \<open>replicaStatus\<close>, a GET of \<open>url + "/status"\<close>.\<close>

definition replicaStatus :: "env \<Rightarrow> pyval \<Rightarrow> log \<Rightarrow> (exn + pyval) \<times> log" where
  "replicaStatus E u lg =
     (case py_concat u ''/status'' of
        Inl e \<Rightarrow> (Inl e, lg)
      | Inr u' \<Rightarrow> send E (GET u' [(''f'', PStr ''json'')]) lg)"

text \<open>\<open>status['status'].lower()\<close>.\<close>

definition status_lower :: "pyval \<Rightarrow> exn + string" where
  "status_lower status =
     (case py_getitem status ''status'' of Inl e \<Rightarrow> Inl e | Inr v \<Rightarrow> py_lower v)"

text \<open>
  Lines 390-395: the wait loop, entered with the first polled status. It has no bound, so
  it is a partial function: \<open>None\<close> is a loop that never leaves. The loop either returns
  from \<open>createReplica\<close> at once (\<open>Returned\<close>, line 393) or falls through to line 395
  with the last status (\<open>Fell\<close>).
\<close>

datatype flow = Returned pyval | Fell pyval

partial_function (option) wait_loop ::
  "env \<Rightarrow> pyval \<Rightarrow> pyval \<Rightarrow> log \<Rightarrow> ((exn + flow) \<times> log) option" where
  "wait_loop E exportJob status lg =
     (case status_lower status of
        Inl e \<Rightarrow> Some (Inl e, lg)
      | Inr st \<Rightarrow>
          if st \<noteq> ''completed'' then
            (case py_getitem exportJob ''statusUrl'' of
               Inl e \<Rightarrow> Some (Inl e, lg)
             | Inr u \<Rightarrow>
                 (case replicaStatus E u lg of
                    (Inl e, lg') \<Rightarrow> Some (Inl e, lg')
                  | (Inr status', lg') \<Rightarrow>
                      (case status_lower status' of
                         Inl e \<Rightarrow> Some (Inl e, lg')
                       | Inr st' \<Rightarrow>
                           if st' = ''failed'' then Some (Inr (Returned status'), lg')
                           else wait_loop E exportJob status' lg')))
          else Some (Inr (Fell status), lg))"

declare wait_loop.simps [code]

text \<open>Lines 405-420: the optional download of the result, and the return.\<close>

definition createReplica_finish ::
  "env \<Rightarrow> string option \<Rightarrow> pyval \<Rightarrow> log \<Rightarrow> (exn + pyval) \<times> log" where
  "createReplica_finish E outp res lg =
     (case outp of
        Some dir \<Rightarrow>
          if isdir E dir then
            (case py_contains ''resultUrl'' res of
               Inl e \<Rightarrow> (Inl e, lg)
             | Inr True \<Rightarrow>
                 (case py_getitem res ''resultUrl'' of
                    Inl e \<Rightarrow> (Inl e, lg)
                  | Inr dlURL \<Rightarrow>
                      if dlURL \<noteq> PNone then send E (DOWNLOAD dlURL dir) lg else (Inr res, lg))
             | Inr False \<Rightarrow>
                 (case py_contains ''responseUrl'' res of
                    Inl e \<Rightarrow> (Inl e, lg)
                  | Inr True \<Rightarrow>
                      (case py_getitem res ''responseUrl'' of
                         Inl e \<Rightarrow> (Inl e, lg)
                       | Inr dlURL \<Rightarrow>
                           if dlURL \<noteq> PNone then send E (DOWNLOAD dlURL dir) lg
                           else (Inr res, lg))
                  | Inr False \<Rightarrow> (Inr res, lg)))
          else (Inr res, lg)
      | None \<Rightarrow> (Inr res, lg))"

text \<open>
  Lines 353-420: the whole operation, from the gate to the return. The result is the value
  returned (\<open>Inr\<close>) or the exception raised (\<open>Inl\<close>), with the log of requests sent;
  \<open>None\<close> when the wait loop never leaves.
\<close>

definition createReplica ::
  "env \<Rightarrow> FeatureService \<Rightarrow> createReplica_args \<Rightarrow> log \<Rightarrow> ((exn + pyval) \<times> log) option" where
  "createReplica E s a lg =
     (case createReplica_gate s of
        Inl e \<Rightarrow> Some (Inl e, lg)
      | Inr True \<Rightarrow> Some (Inr PNone, lg)
      | Inr False \<Rightarrow>
          (case createReplica_params a of
             Inl e \<Rightarrow> Some (Inl e, lg)
           | Inr params \<Rightarrow>
               let url = fs_url s @ ''/createReplica'' in
               if py_truthy (async a) \<and> py_truthy (wait a) then
                 (case send E (POST url params []) lg of
                    (Inl e, lg1) \<Rightarrow> Some (Inl e, lg1)
                  | (Inr exportJob, lg1) \<Rightarrow>
                      (case py_getitem exportJob ''statusUrl'' of
                         Inl e \<Rightarrow> Some (Inl e, lg1)
                       | Inr u \<Rightarrow>
                           (case replicaStatus E u lg1 of
                              (Inl e, lg2) \<Rightarrow> Some (Inl e, lg2)
                            | (Inr status, lg2) \<Rightarrow>
                                (case wait_loop E exportJob status lg2 of
                                   None \<Rightarrow> None
                                 | Some (Inl e, lg3) \<Rightarrow> Some (Inl e, lg3)
                                 | Some (Inr (Returned v), lg3) \<Rightarrow> Some (Inr v, lg3)
                                 | Some (Inr (Fell res), lg3) \<Rightarrow>
                                     Some (createReplica_finish E (out_path a) res lg3)))))
               else
                 (case send E (POST url params []) lg of
                    (Inl e, lg1) \<Rightarrow> Some (Inl e, lg1)
                  | (Inr res, lg1) \<Rightarrow> Some (createReplica_finish E (out_path a) res lg1))))"

section \<open>The query operations\<close>

text \<open>Sequencing of steps that may raise.\<close>

definition ebind :: "exn + 'a \<Rightarrow> ('a \<Rightarrow> exn + 'b) \<Rightarrow> exn + 'b" where
  "ebind m f = (case m of Inl e \<Rightarrow> Inl e | Inr x \<Rightarrow> f x)"

text \<open>\<open>params[dst] = gf[src]\<close>: a missing key raises \<open>KeyError\<close>.\<close>

definition copy_key :: "pydict \<Rightarrow> string \<Rightarrow> string \<Rightarrow> pydict \<Rightarrow> exn + pydict" where
  "copy_key gf src dst params =
     (case map_of gf src of None \<Rightarrow> Inl (KeyError src) | Some v \<Rightarrow> Inr (dict_set dst v params))"

text \<open>\<open>v is not None and v != ""\<close>.\<close>

definition nonempty :: "pyval \<Rightarrow> bool" where
  "nonempty v = (v \<noteq> PNone \<and> v \<noteq> PStr [])"

text \<open>The arguments of \<open>FeatureService.query\<close> and their defaults.\<close>

record service_query_args =
  sq_layerDefsFilter :: pyval
  sq_geometryFilter :: pyval
  sq_timeFilter :: pyval
  sq_returnGeometry :: pyval
  sq_returnIdsOnly :: pyval
  sq_returnCountOnly :: pyval
  sq_returnZ :: pyval
  sq_returnM :: pyval
  sq_outSR :: pyval

definition service_query_defaults :: service_query_args where
  "service_query_defaults =
     \<lparr>sq_layerDefsFilter = PNone, sq_geometryFilter = PNone, sq_timeFilter = PNone,
      sq_returnGeometry = PBool True, sq_returnIdsOnly = PBool False,
      sq_returnCountOnly = PBool False, sq_returnZ = PBool False, sq_returnM = PBool False,
      sq_outSR = PNone\<rparr>"

text \<open>
  Lines 107-131 of \<open>FeatureService.query\<close>: the request parameters, built in three
  steps: the fixed entries and \<open>layerDefs\<close> (lines 107-115), the geometry filter
  (lines 116-122), the output spatial reference and the time filter (lines 123-131).
\<close>

definition service_query_head :: "service_query_args \<Rightarrow> pydict" where
  "service_query_head a =
     (let params = [(''f'', PStr ''json''),
                    (''returnGeometry'', sq_returnGeometry a),
                    (''returnIdsOnly'', sq_returnIdsOnly a),
                    (''returnCountOnly'', sq_returnCountOnly a),
                    (''returnZ'', sq_returnZ a),
                    (''returnM'', sq_returnM a)]
      in if sq_layerDefsFilter a \<noteq> PNone \<and> is_dict (sq_layerDefsFilter a)
         then dict_set ''layerDefs'' (sq_layerDefsFilter a) params else params)"

definition service_query_geometry :: "pyval \<Rightarrow> pydict \<Rightarrow> exn + pydict" where
  "service_query_geometry gfilter params =
     (case gfilter of
        PDict gf \<Rightarrow>
          ebind (copy_key gf ''geometryType'' ''geometryType'' params) (\<lambda>params.
          ebind (copy_key gf ''spatialRel'' ''spatialRel'' params) (\<lambda>params.
          ebind (copy_key gf ''geometry'' ''geometry'' params) (\<lambda>params.
          copy_key gf ''inSR'' ''inSR'' params)))
      | _ \<Rightarrow> Inr params)"

definition service_query_tail :: "service_query_args \<Rightarrow> pydict \<Rightarrow> pydict" where
  "service_query_tail a params =
     (let params = (case sq_outSR a of
                      PSpatialReference d \<Rightarrow> dict_set ''outSR'' d params
                    | PDict d \<Rightarrow> dict_set ''outSR'' (PDict d) params
                    | _ \<Rightarrow> params)
      in if sq_timeFilter a \<noteq> PNone \<and> is_dict (sq_timeFilter a)
         then dict_set ''time'' (sq_timeFilter a) params else params)"

definition FeatureService_query_params :: "service_query_args \<Rightarrow> exn + pydict" where
  "FeatureService_query_params a =
     ebind (service_query_geometry (sq_geometryFilter a) (service_query_head a))
       (\<lambda>params. Inr (service_query_tail a params))"

text \<open>Lines 106-134: \<open>FeatureService.query\<close>, a GET of \<open>/query\<close>.\<close>

definition FeatureService_query ::
  "env \<Rightarrow> FeatureService \<Rightarrow> service_query_args \<Rightarrow> log \<Rightarrow> (exn + pyval) \<times> log" where
  "FeatureService_query E s a lg =
     (case FeatureService_query_params a of
        Inl e \<Rightarrow> (Inl e, lg)
      | Inr params \<Rightarrow> send E (GET (fs_url s @ ''/query'') params) lg)"

text \<open>The arguments of \<open>FeatureLayer.query\<close> and their defaults; \<open>lq_kwargs\<close> is \<open>**kwargs\<close>.\<close>

record layer_query_args =
  lq_where :: pyval
  lq_out_fields :: pyval
  lq_timeFilter :: pyval
  lq_geometryFilter :: pyval
  lq_returnGeometry :: pyval
  lq_returnIDsOnly :: pyval
  lq_returnCountOnly :: pyval
  lq_returnDistinctValues :: pyval
  lq_returnExtentOnly :: pyval
  lq_groupByFieldsForStatistics :: pyval
  lq_statisticFilter :: pyval
  lq_resultOffset :: pyval
  lq_resultRecordCount :: pyval
  lq_objectIds :: pyval
  lq_kwargs :: pydict

definition layer_query_defaults :: layer_query_args where
  "layer_query_defaults =
     \<lparr>lq_where = PStr ''1=1'', lq_out_fields = PStr ''*'', lq_timeFilter = PNone,
      lq_geometryFilter = PNone, lq_returnGeometry = PBool True, lq_returnIDsOnly = PBool False,
      lq_returnCountOnly = PBool False, lq_returnDistinctValues = PBool False,
      lq_returnExtentOnly = PBool False, lq_groupByFieldsForStatistics = PNone,
      lq_statisticFilter = PNone, lq_resultOffset = PStr [], lq_resultRecordCount = PStr [],
      lq_objectIds = PStr [], lq_kwargs = []\<rparr>"

text \<open>
  Lines 596-627 of \<open>FeatureLayer.query\<close>: the request parameters, built in three steps:
  the fixed entries, the keyword arguments and the time filter (lines 596-609), the
  geometry filter (lines 610-616), the remaining optional entries (lines 617-627).
\<close>

definition layer_query_head :: "layer_query_args \<Rightarrow> pydict" where
  "layer_query_head a =
     (let params = [(''f'', PStr ''json''),
                    (''where'', lq_where a),
                    (''outFields'', lq_out_fields a),
                    (''returnGeometry'', lq_returnGeometry a),
                    (''returnIdsOnly'', lq_returnIDsOnly a),
                    (''returnCountOnly'', lq_returnCountOnly a),
                    (''returnDistinctValues'', lq_returnDistinctValues a),
                    (''returnExtentOnly'', lq_returnExtentOnly a)];
          params = dict_update params (lq_kwargs a)
      in if lq_timeFilter a \<noteq> PNone \<and> is_dict (lq_timeFilter a)
         then dict_set ''time'' (lq_timeFilter a) params else params)"

definition layer_query_geometry :: "pyval \<Rightarrow> pydict \<Rightarrow> exn + pydict" where
  "layer_query_geometry gfilter params =
     (case gfilter of
        PDict gf \<Rightarrow>
          ebind (copy_key gf ''geometry'' ''geometry'' params) (\<lambda>params.
          ebind (copy_key gf ''geometryType'' ''geometryType'' params) (\<lambda>params.
          ebind (copy_key gf ''spatialRel'' ''spatialRelationship'' params) (\<lambda>params.
          copy_key gf ''inSR'' ''inSR'' params)))
      | _ \<Rightarrow> Inr params)"

definition layer_query_tail :: "layer_query_args \<Rightarrow> pydict \<Rightarrow> pydict" where
  "layer_query_tail a params =
     (let params = (if nonempty (lq_objectIds a)
                    then dict_set ''objectIds'' (lq_objectIds a) params else params);
          params = (if nonempty (lq_resultOffset a)
                    then dict_set ''resultOffset'' (lq_resultOffset a) params else params);
          params = (if nonempty (lq_resultRecordCount a)
                    then dict_set ''resultRecordCount'' (lq_resultRecordCount a) params
                    else params);
          params = (if lq_groupByFieldsForStatistics a \<noteq> PNone
                    then dict_set ''groupByFieldsForStatistics''
                           (lq_groupByFieldsForStatistics a) params
                    else params)
      in if lq_statisticFilter a \<noteq> PNone \<and> is_dict (lq_statisticFilter a)
         then dict_set ''outStatistics'' (lq_statisticFilter a) params else params)"

definition FeatureLayer_query_params :: "layer_query_args \<Rightarrow> exn + pydict" where
  "FeatureLayer_query_params a =
     ebind (layer_query_geometry (lq_geometryFilter a) (layer_query_head a))
       (\<lambda>params. Inr (layer_query_tail a params))"

text \<open>
  Lines 596-632: \<open>FeatureLayer.query\<close>, a POST of \<open>/query\<close> whose decoded response is
  inspected with \<open>'error' in results\<close>.
\<close>

definition FeatureLayer_query ::
  "env \<Rightarrow> FeatureLayer \<Rightarrow> layer_query_args \<Rightarrow> log \<Rightarrow> (exn + pyval) \<times> log" where
  "FeatureLayer_query E l a lg =
     (case FeatureLayer_query_params a of
        Inl e \<Rightarrow> (Inl e, lg)
      | Inr params \<Rightarrow>
          (case send E (POST (fl_url l @ ''/query'') params []) lg of
             (Inl e, lg') \<Rightarrow> (Inl e, lg')
           | (Inr results, lg') \<Rightarrow>
               (case py_contains ''error'' results of
                  Inl e \<Rightarrow> (Inl e, lg')
                | Inr True \<Rightarrow> (Inl (ValueError results), lg')
                | Inr False \<Rightarrow> (Inr results, lg'))))"

section \<open>Attachments and feature edits\<close>

text \<open>Lines 481-493: \<open>FeatureLayer.addAttachment\<close>.\<close>

definition FeatureLayer_addAttachment ::
  "env \<Rightarrow> FeatureLayer \<Rightarrow> pyval \<Rightarrow> pyval \<Rightarrow> log \<Rightarrow> (exn + pyval) \<times> log" where
  "FeatureLayer_addAttachment E l oid file_path lg =
     (if hasattr (fl_attrs l) ''hasAttachments'' \<and>
         py_eq_bool (getattr (fl_attrs l) ''hasAttachments'') True
      then
        let attachURL = fl_url l @ (''/'' @ py_str E oid @ ''/addAttachment'');
            params = [(''f'', PStr ''json'')]
        in (case urlparse_urlparse E attachURL of
              Some e \<Rightarrow> (Inl e, lg)
            | None \<Rightarrow>
                let files = [(''attachment'', file_path)]
                in send E (POST attachURL params files) lg)
      else (Inr (PStr ''Attachments are not supported for this feature service.''), lg))"

text \<open>Lines 966-981 of \<open>FeatureLayer.addFeature\<close>: the request parameters.\<close>

definition FeatureLayer_addFeature_params :: "env \<Rightarrow> pyval \<Rightarrow> pyval \<Rightarrow> pyval \<Rightarrow> exn + pydict" where
  "FeatureLayer_addFeature_params E features gdbVersion rollbackOnFailure =
     (let params = [(''f'', PStr ''json'')];
          params = (if gdbVersion \<noteq> PNone then dict_set ''gdbVersion'' gdbVersion params
                    else params);
          params = (if is_bool rollbackOnFailure
                    then dict_set ''rollbackOnFailure'' rollbackOnFailure params else params)
      in if is_list features then
           ebind (json_dumps E True features)
             (\<lambda>txt. Inr (dict_set ''features'' (PStr txt) params))
         else if is_dict features then
           ebind (json_dumps E True (PList [features]))
             (\<lambda>txt. Inr (dict_set ''features'' (PStr txt) params))
         else
           Inl (ValueError
                  (PStr ''features must be of type list of dictionaries or a dictionary'')))"

text \<open>Lines 966-983: \<open>FeatureLayer.addFeature\<close>, a POST of \<open>/addFeatures\<close>.\<close>

definition FeatureLayer_addFeature ::
  "env \<Rightarrow> FeatureLayer \<Rightarrow> pyval \<Rightarrow> pyval \<Rightarrow> pyval \<Rightarrow> log \<Rightarrow> (exn + pyval) \<times> log" where
  "FeatureLayer_addFeature E l features gdbVersion rollbackOnFailure lg =
     (case FeatureLayer_addFeature_params E features gdbVersion rollbackOnFailure of
        Inl e \<Rightarrow> (Inl e, lg)
      | Inr params \<Rightarrow> send E (POST (fl_url l @ ''/addFeatures'') params []) lg)"

text \<open>Lines 821-832 of \<open>FeatureLayer.updateFeature\<close>: the request parameters.\<close>

definition FeatureLayer_updateFeature_params ::
  "env \<Rightarrow> pyval \<Rightarrow> pyval \<Rightarrow> pyval \<Rightarrow> exn + pydict" where
  "FeatureLayer_updateFeature_params E features gdbVersion rollbackOnFailure =
     (let params = [(''f'', PStr ''json''), (''rollbackOnFailure'', rollbackOnFailure)];
          params = (if gdbVersion \<noteq> PNone then dict_set ''gdbVersion'' gdbVersion params
                    else params)
      in if is_dict features then
           ebind (json_dumps E False (PList [features]))
             (\<lambda>txt. Inr (dict_set ''features'' (PStr txt) params))
         else if is_list features then
           ebind (json_dumps E False features)
             (\<lambda>txt. Inr (dict_set ''features'' (PStr txt) params))
         else Inl (ValueError (PDict [(''message'', PStr ''invalid inputs'')])))"

text \<open>Lines 821-837: \<open>FeatureLayer.updateFeature\<close>, a POST of \<open>/updateFeatures\<close>.\<close>

definition FeatureLayer_updateFeature ::
  "env \<Rightarrow> FeatureLayer \<Rightarrow> pyval \<Rightarrow> pyval \<Rightarrow> pyval \<Rightarrow> log \<Rightarrow> (exn + pyval) \<times> log" where
  "FeatureLayer_updateFeature E l features gdbVersion rollbackOnFailure lg =
     (case FeatureLayer_updateFeature_params E features gdbVersion rollbackOnFailure of
        Inl e \<Rightarrow> (Inl e, lg)
      | Inr params \<Rightarrow> send E (POST (fl_url l @ ''/updateFeatures'') params []) lg)"

section \<open>Loading the descriptor and discovering its layers and tables\<close>

text \<open>\<open>for l in v\<close>: the elements of a list, the keys of a dict, the characters of a string.\<close>

definition py_iter :: "pyval \<Rightarrow> exn + pyval list" where
  "py_iter v =
     (case v of
        PList xs \<Rightarrow> Inr xs
      | PDict d \<Rightarrow> Inr (map (\<lambda>(k, _). PStr k) d)
      | PStr s \<Rightarrow> Inr (map (\<lambda>c. PStr [c]) s)
      | _ \<Rightarrow> Inl TypeError)"

text \<open>\<open>isinstance(v, dict) and v.has_key(k)\<close>.\<close>

definition has_key :: "pyval \<Rightarrow> string \<Rightarrow> bool" where
  "has_key v k = (case v of PDict d \<Rightarrow> map_of d k \<noteq> None | _ \<Rightarrow> False)"

text \<open>
  The body of the two loops of \<open>_load_layers\<close> (lines 67-70 and 73-76): one child per
  entry, at \<open>self._url + "/%s" % l['id']\<close>, appended to the list built so far. An
  entry without \<open>id\<close> raises, and the children appended before it stay.
\<close>

fun append_children ::
  "env \<Rightarrow> (string \<Rightarrow> FeatureLayer) \<Rightarrow> string \<Rightarrow> pyval list \<Rightarrow> FeatureLayer list \<Rightarrow>
     exn option \<times> FeatureLayer list" where
  "append_children E mk u [] acc = (None, acc)"
| "append_children E mk u (l # ls) acc =
     (case py_getitem l ''id'' of
        Inl e \<Rightarrow> (Some e, acc)
      | Inr i \<Rightarrow> append_children E mk u ls (acc @ [mk (u @ (''/'' @ py_str E i))]))"

text \<open>Lines 65-70: the layers of the cached metadata.\<close>

definition load_layer_children :: "env \<Rightarrow> FeatureService \<Rightarrow> exn option \<times> FeatureService" where
  "load_layer_children E s =
     (if has_key (fs_json_dict s) ''layers'' then
        (case ebind (py_getitem (fs_json_dict s) ''layers'') py_iter of
           Inl e \<Rightarrow> (Some e, s)
         | Inr ls \<Rightarrow>
             (case fs_layers s of
                None \<Rightarrow> (if ls = [] then (None, s) else (Some AttributeError, s))
              | Some acc \<Rightarrow>
                  (case append_children E new_FeatureLayer (fs_url s) ls acc of
                     (r, xs) \<Rightarrow> (r, s\<lparr>fs_layers := Some xs\<rparr>))))
      else (None, s))"

text \<open>Lines 71-76: the tables of the cached metadata.\<close>

definition load_table_children :: "env \<Rightarrow> FeatureService \<Rightarrow> exn option \<times> FeatureService" where
  "load_table_children E s =
     (if has_key (fs_json_dict s) ''tables'' then
        (case ebind (py_getitem (fs_json_dict s) ''tables'') py_iter of
           Inl e \<Rightarrow> (Some e, s)
         | Inr ls \<Rightarrow>
             (case fs_tables s of
                None \<Rightarrow> (if ls = [] then (None, s) else (Some AttributeError, s))
              | Some acc \<Rightarrow>
                  (case append_children E new_TableLayer (fs_url s) ls acc of
                     (r, xs) \<Rightarrow> (r, s\<lparr>fs_tables := Some xs\<rparr>))))
      else (None, s))"

text \<open>Lines 38-39: \<open>for k, v in json_dict.items(): setattr(self, k, v)\<close>.\<close>

fun merge_attrs :: "env \<Rightarrow> pydict \<Rightarrow> pydict \<Rightarrow> exn option \<times> pydict" where
  "merge_attrs E [] attrs = (None, attrs)"
| "merge_attrs E ((k, v) # kvs) attrs =
     (if setattr_raises E k then (Some AttributeError, attrs)
      else merge_attrs E kvs (dict_set k v attrs))"

text \<open>
  Lines 31-40, the private loader \<open>__init\<close>, and lines 58-76, \<open>_load_layers\<close>. Each calls
  the other: \<open>_load_layers\<close> calls the loader when no metadata is cached, and the loader,
  having stored the metadata and merged its keys into the attributes, calls
  \<open>_load_layers\<close>. The result is the exception raised, if any, with the descriptor and the
  log as the call leaves them. \<open>json_dict.items()\<close> raises on a response that is no dict.
\<close>

function FeatureService_init ::
    "env \<Rightarrow> FeatureService \<Rightarrow> log \<Rightarrow> exn option \<times> FeatureService \<times> log"
  and load_layers ::
    "env \<Rightarrow> FeatureService \<Rightarrow> log \<Rightarrow> exn option \<times> FeatureService \<times> log" where
  "FeatureService_init E s lg =
     (case send E (GET (fs_url s) [(''f'', PStr ''json'')]) lg of
        (Inl e, lg') \<Rightarrow> (Some e, s, lg')
      | (Inr json_dict, lg') \<Rightarrow>
          (case json_dict of
             PDict kvs \<Rightarrow>
               (case merge_attrs E kvs (fs_attrs s) of
                  (Some e, attrs) \<Rightarrow>
                    (Some e, s\<lparr>fs_json_dict := PDict kvs, fs_attrs := attrs\<rparr>, lg')
                | (None, attrs) \<Rightarrow>
                    load_layers E (s\<lparr>fs_json_dict := PDict kvs, fs_attrs := attrs\<rparr>) lg')
           | _ \<Rightarrow> (Some AttributeError, s\<lparr>fs_json_dict := json_dict\<rparr>, lg')))"
| "load_layers E s lg =
     (case (if fs_json_dict s = PNone
            then FeatureService_init E (s\<lparr>fs_layers := Some [], fs_tables := Some []\<rparr>) lg
            else (None, s\<lparr>fs_layers := Some [], fs_tables := Some []\<rparr>, lg)) of
        (Some e, s1, lg') \<Rightarrow> (Some e, s1, lg')
      | (None, s1, lg') \<Rightarrow>
          (case load_layer_children E s1 of
             (Some e, s2) \<Rightarrow> (Some e, s2, lg')
           | (None, s2) \<Rightarrow>
               (case load_table_children E s2 of
                  (r, s3) \<Rightarrow> (r, s3, lg'))))"
  by pat_completeness auto
termination
  by (relation "measure (\<lambda>x. case x of
                   Inl (E, s, lg) \<Rightarrow> 1
                 | Inr (E, s, lg) \<Rightarrow> (if fs_json_dict s = PNone then 2 else 0))") auto

declare FeatureService_init.simps [simp del]
declare load_layers.simps [simp del]

text \<open>Lines 78-90: the accessors \<open>layers\<close> and \<open>tables\<close>; the value returned is the cache.\<close>

definition FeatureService_layers ::
  "env \<Rightarrow> FeatureService \<Rightarrow> log \<Rightarrow> (exn + FeatureLayer list option) \<times> FeatureService \<times> log" where
  "FeatureService_layers E s lg =
     (if fs_layers s = None then
        (case load_layers E s lg of
           (Some e, s', lg') \<Rightarrow> (Inl e, s', lg')
         | (None, s', lg') \<Rightarrow> (Inr (fs_layers s'), s', lg'))
      else (Inr (fs_layers s), s, lg))"

definition FeatureService_tables ::
  "env \<Rightarrow> FeatureService \<Rightarrow> log \<Rightarrow> (exn + FeatureLayer list option) \<times> FeatureService \<times> log" where
  "FeatureService_tables E s lg =
     (if fs_tables s = None then
        (case load_layers E s lg of
           (Some e, s', lg') \<Rightarrow> (Inl e, s', lg')
         | (None, s', lg') \<Rightarrow> (Inr (fs_tables s'), s', lg'))
      else (Inr (fs_tables s), s, lg))"

text \<open>
  Lines 42-46: \<open>refresh_service\<close>. Both caches are set to \<open>None\<close>; line 46 then calls the
  private loader without the \<open>connection\<close> argument its signature requires, so the call
  raises \<open>TypeError\<close> before the loader's body runs.
\<close>

definition refresh_service ::
  "env \<Rightarrow> FeatureService \<Rightarrow> log \<Rightarrow> exn option \<times> FeatureService \<times> log" where
  "refresh_service E s lg = (Some TypeError, s\<lparr>fs_tables := None, fs_layers := None\<rparr>, lg)"

text \<open>
  The descriptors that can arise: one whose two caches are still \<open>None\<close>, as the class
  attributes of lines 28-29 leave them (url, metadata and attributes are whatever the
  constructor made them), and every descriptor that the operations above leave behind,
  whether they return or raise, with any transport.
\<close>

inductive reachable :: "FeatureService \<Rightarrow> bool" where
  fresh: "fs_layers s = None \<Longrightarrow> fs_tables s = None \<Longrightarrow> reachable s"
| after_layers: "reachable s \<Longrightarrow> FeatureService_layers E s lg = (r, s', lg') \<Longrightarrow> reachable s'"
| after_tables: "reachable s \<Longrightarrow> FeatureService_tables E s lg = (r, s', lg') \<Longrightarrow> reachable s'"
| after_refresh: "reachable s \<Longrightarrow> refresh_service E s lg = (x, s', lg') \<Longrightarrow> reachable s'"
| after_load: "reachable s \<Longrightarrow> load_layers E s lg = (x, s', lg') \<Longrightarrow> reachable s'"
| after_init: "reachable s \<Longrightarrow> FeatureService_init E s lg = (x, s', lg') \<Longrightarrow> reachable s'"

section \<open>Concrete inputs\<close>

text \<open>
  A scripted transport: every POST is answered with a job whose status url is
  \<open>http://host/jobs/j1\<close>, the n-th GET with the n-th status of the script (and with an
  error once the script is used up), a download with the folder it wrote to.
\<close>

definition scripted :: "string list \<Rightarrow> log \<Rightarrow> request \<Rightarrow> exn + pyval" where
  "scripted statuses lg r =
     (case r of
        POST u p f \<Rightarrow> Inr (PDict [(''statusUrl'', PStr ''http://host/jobs/j1'')])
      | GET u p \<Rightarrow>
          (let n = length (filter (\<lambda>q. case q of GET _ _ \<Rightarrow> True | _ \<Rightarrow> False) lg)
           in if n < length statuses then Inr (PDict [(''status'', PStr (statuses ! n))])
              else Inl (TransportError ''no answer''))
      | DOWNLOAD u d \<Rightarrow> Inr (PStr d))"

text \<open>A transport that answers every request with the same body.\<close>

definition answering :: "pyval \<Rightarrow> log \<Rightarrow> request \<Rightarrow> exn + pyval" where
  "answering body lg r = Inr body"

definition mock_env :: "(log \<Rightarrow> request \<Rightarrow> exn + pyval) \<Rightarrow> env" where
  "mock_env T =
     \<lparr>transport = T, isdir = (\<lambda>d. d = ''/tmp''), json_dumps = (\<lambda>_ _. Inr ''[]''),
      py_repr = (\<lambda>_. ''?''), urlparse_urlparse = (\<lambda>_. None), setattr_raises = (\<lambda>_. False)\<rparr>"

text \<open>The same, with a base class that refuses to assign the read-only properties.\<close>

definition new_style_env :: "(log \<Rightarrow> request \<Rightarrow> exn + pyval) \<Rightarrow> env" where
  "new_style_env T =
     (mock_env T)\<lparr>setattr_raises :=
        (\<lambda>k. k \<in> set [''uploads'', ''layers'', ''tables'', ''replicas''])\<rparr>"

text \<open>
  The same as \<open>mock_env\<close>, with the vendored \<open>six\<close>: the name \<open>urlparse\<close> that line 21
  imports from \<open>six.moves.urllib_parse\<close> is the function of that name, a function has no
  attribute \<open>urlparse\<close>, and so \<open>urlparse.urlparse(u)\<close> raises \<open>AttributeError\<close>.
\<close>

definition six_env :: "(log \<Rightarrow> request \<Rightarrow> exn + pyval) \<Rightarrow> env" where
  "six_env T = (mock_env T)\<lparr>urlparse_urlparse := (\<lambda>_. Some AttributeError)\<rparr>"

definition demo_metadata :: pyval where
  "demo_metadata = PDict [(''layers'', PList [PDict [(''id'', PInt 0)]]),
                          (''tables'', PList [PDict [(''id'', PInt 1)]])]"

definition demo_service :: FeatureService where
  "demo_service =
     (new_FeatureService ''http://host/svc'')
       \<lparr>fs_attrs := [(''syncEnabled'', PBool True), (''capabilities'', PStr ''Query,Sync'')]\<rparr>"

definition gated_service :: FeatureService where
  "gated_service =
     (new_FeatureService ''http://host/svc'')
       \<lparr>fs_attrs := [(''syncEnabled'', PBool False), (''capabilities'', PStr ''Query,Editing'')]\<rparr>"

definition wait_args :: createReplica_args where
  "wait_args =
     (createReplica_defaults (PStr ''r1'') (PStr ''0''))\<lparr>async := PBool True, wait := PBool True\<rparr>"

definition wait_params :: pydict where
  "wait_params =
     [(''f'', PStr ''json''), (''replicaName'', PStr ''r1''),
      (''returnAttachments'', PBool False), (''returnAttachmentsDatabyURL'', PBool False),
      (''attachmentsSyncDirection'', PStr ''none''), (''async'', PBool True),
      (''syncModel'', PStr ''none''), (''layers'', PStr ''0''),
      (''dataFormat'', PStr ''json''), (''transportType'', PStr ''esriTransportTypeUrl'')]"

definition status_payload :: "string \<Rightarrow> pyval" where
  "status_payload st = PDict [(''status'', PStr st)]"

definition create_request :: request where
  "create_request = POST ''http://host/svc/createReplica'' wait_params []"

definition status_request :: request where
  "status_request = GET ''http://host/jobs/j1/status'' [(''f'', PStr ''json'')]"

definition failed_first :: "log \<Rightarrow> request \<Rightarrow> exn + pyval" where
  "failed_first = scripted [''failed'', ''completed'']"

definition xml_args :: createReplica_args where
  "xml_args = (createReplica_defaults (PStr ''r1'') (PStr ''0''))\<lparr>dataFormat := PStr ''XML''\<rparr>"

definition sqlite_args :: createReplica_args where
  "sqlite_args =
     (createReplica_defaults (PStr ''r1'') (PStr ''0''))\<lparr>dataFormat := PStr ''SQLite''\<rparr>"

definition demo_layer :: FeatureLayer where
  "demo_layer = new_FeatureLayer ''http://host/svc/0''"

definition default_layer_params :: pydict where
  "default_layer_params =
     [(''f'', PStr ''json''), (''where'', PStr ''1=1''), (''outFields'', PStr ''*''),
      (''returnGeometry'', PBool True), (''returnIdsOnly'', PBool False),
      (''returnCountOnly'', PBool False), (''returnDistinctValues'', PBool False),
      (''returnExtentOnly'', PBool False)]"

definition error_body :: pydict where
  "error_body = [(''error'', PDict [(''code'', PInt 400), (''message'', PStr ''Invalid'')])]"

definition features_body :: pydict where
  "features_body = [(''features'', PList [])]"

definition demo_feature :: pydict where
  "demo_feature = [(''attributes'', PDict [(''OBJECTID'', PInt 7)])]"

definition demo_filter :: pydict where
  "demo_filter =
     [(''geometryType'', PStr ''esriGeometryPoint''), (''geometry'', PStr ''1,2''),
      (''spatialRel'', PStr ''esriSpatialRelIntersects''), (''inSR'', PInt 4326)]"

definition attachments_layer :: "bool \<Rightarrow> FeatureLayer" where
  "attachments_layer b = demo_layer\<lparr>fl_attrs := [(''hasAttachments'', PBool b)]\<rparr>"

definition fresh_service :: FeatureService where
  "fresh_service = new_FeatureService ''http://host/svc''"

definition after_first_read :: "env \<Rightarrow> FeatureService" where
  "after_first_read E = fst (snd (FeatureService_layers E fresh_service []))"

definition cached_service :: FeatureService where
  "cached_service = fresh_service\<lparr>fs_json_dict := demo_metadata\<rparr>"

definition service_filter_args :: service_query_args where
  "service_filter_args = service_query_defaults\<lparr>sq_geometryFilter := PDict demo_filter\<rparr>"

definition layer_filter_args :: layer_query_args where
  "layer_filter_args = layer_query_defaults\<lparr>lq_geometryFilter := PDict demo_filter\<rparr>"

section \<open>Properties of the wait loop and of createReplica\<close>

lemma wait_loop_completed:
  "status_lower st = Inr ''completed'' \<Longrightarrow> wait_loop E job st lg = Some (Inr (Fell st), lg)"
  by (subst wait_loop.simps) simp

lemma replicaStatus_str:
  "replicaStatus E (PStr su) lg =
     (transport E lg (GET (su @ ''/status'') [(''f'', PStr ''json'')]),
      lg @ [GET (su @ ''/status'') [(''f'', PStr ''json'')]])"
  by (simp add: replicaStatus_def py_concat_def send_def)

text \<open>One turn of the loop: a status that is not "completed" costs one more poll.\<close>

lemma wait_loop_poll:
  assumes "status_lower st = Inr x" and "x \<noteq> ''completed''"
    and "py_getitem job ''statusUrl'' = Inr (PStr su)"
    and "transport E lg (GET (su @ ''/status'') [(''f'', PStr ''json'')]) = Inr st'"
    and "status_lower st' = Inr y"
  shows "wait_loop E job st lg =
           (if y = ''failed''
            then Some (Inr (Returned st'), lg @ [GET (su @ ''/status'') [(''f'', PStr ''json'')]])
            else wait_loop E job st' (lg @ [GET (su @ ''/status'') [(''f'', PStr ''json'')]]))"
  using assms by (subst wait_loop.simps) (simp add: replicaStatus_str)

lemma replicaStatus_extends: "replicaStatus E u lg = (r, lg') \<Longrightarrow> \<exists>rest. lg' = lg @ rest"
  by (auto simp: replicaStatus_def send_def split: sum.splits)

text \<open>The loop only ever appends to the log of requests.\<close>

lemma wait_loop_extends_aux:
  assumes "wait_loop E job st lg = Some y"
  shows "\<exists>rest. snd y = lg @ rest"
proof (rule wait_loop.raw_induct
    [where P = "\<lambda>E job st lg y. \<exists>rest. snd y = lg @ rest", OF _ assms])
  fix wl E job st lg y
  assume 1: "\<And>E job st lg y. wl E job st lg = Some y \<Longrightarrow> \<exists>rest. snd y = lg @ rest"
    "(case status_lower st of
        Inl e \<Rightarrow> Some (Inl e, lg)
      | Inr st' \<Rightarrow>
          if st' \<noteq> ''completed'' then
            (case py_getitem job ''statusUrl'' of
               Inl e \<Rightarrow> Some (Inl e, lg)
             | Inr u \<Rightarrow>
                 (case replicaStatus E u lg of
                    (Inl e, lg') \<Rightarrow> Some (Inl e, lg')
                  | (Inr status', lg') \<Rightarrow>
                      (case status_lower status' of
                         Inl e \<Rightarrow> Some (Inl e, lg')
                       | Inr st' \<Rightarrow>
                           if st' = ''failed'' then Some (Inr (Returned status'), lg')
                           else wl E job status' lg')))
          else Some (Inr (Fell st), lg)) = Some y"
  show "\<exists>rest. snd y = lg @ rest"
  proof (cases "status_lower st")
    case (Inl e)
    with 1(2) show ?thesis by auto
  next
    case (Inr x)
    show ?thesis
    proof (cases "x = ''completed''")
      case True
      with Inr 1(2) show ?thesis by auto
    next
      case False
      show ?thesis
      proof (cases "py_getitem job ''statusUrl''")
        case (Inl e)
        with False Inr 1(2) show ?thesis by auto
      next
        case u: (Inr u)
        obtain r lg1 where rs: "replicaStatus E u lg = (r, lg1)"
          by (cases "replicaStatus E u lg")
        then obtain rest1 where lg1: "lg1 = lg @ rest1"
          using replicaStatus_extends by blast
        show ?thesis
        proof (cases r)
          case (Inl e)
          with False Inr u rs lg1 1(2) show ?thesis by auto
        next
          case st': (Inr st')
          show ?thesis
          proof (cases "status_lower st'")
            case (Inl e)
            with False Inr u rs lg1 st' 1(2) show ?thesis by auto
          next
            case y': (Inr y')
            show ?thesis
            proof (cases "y' = ''failed''")
              case True
              with False Inr u rs lg1 st' y' 1(2) show ?thesis by auto
            next
              case nf: False
              with False Inr u rs st' y' 1(2) have again: "wl E job st' lg1 = Some y"
                by simp
              have "\<exists>rest. snd y = lg1 @ rest" using again by (rule 1(1))
              then show ?thesis using lg1 by auto
            qed
          qed
        qed
      qed
    qed
  qed
qed

lemma wait_loop_extends:
  "wait_loop E job st lg = Some (r, lg') \<Longrightarrow> \<exists>rest. lg' = lg @ rest"
  using wait_loop_extends_aux[of E job st lg "(r, lg')"] by simp

lemma createReplica_finish_extends:
  "createReplica_finish E outp res lg = (r, lg') \<Longrightarrow> \<exists>rest. lg' = lg @ rest"
  by (auto simp: createReplica_finish_def send_def
           split: option.splits if_splits sum.splits bool.splits)

text \<open>Whenever the operation passes the gate and returns, its first request is the POST.\<close>

lemma createReplica_first_request:
  assumes "createReplica_gate s = Inr False" and "createReplica_params a = Inr params"
    and "createReplica E s a lg = Some (r, lg')"
  shows "\<exists>rest. lg' = lg @ POST (fs_url s @ ''/createReplica'') params [] # rest"
  using assms
  apply (simp add: createReplica_def Let_def send_def
              split: if_splits sum.splits prod.splits option.splits flow.splits)
         apply (auto dest!: wait_loop_extends createReplica_finish_extends replicaStatus_extends)
  done



text \<open>
  C2. The first poll (line 389) is only compared with "completed": when it answers
  "failed" the loop polls again, and here the job's second answer, "completed", is what
  \<open>createReplica\<close> returns, after two status GETs.
\<close>

theorem createReplica_first_poll_failed:
  "transport (mock_env failed_first) [create_request] status_request =
     Inr (status_payload ''failed'')
   \<and> createReplica (mock_env failed_first) demo_service wait_args [] =
       Some (Inr (status_payload ''completed''),
             [create_request, status_request, status_request])"
  by code_simp

text \<open>
  C4. A descriptor whose metadata declares \<open>syncEnabled\<close> false and whose \<open>capabilities\<close>
  do not contain "Extract": \<open>createReplica\<close> returns \<open>None\<close> and sends nothing, whatever
  its arguments, the transport and the requests sent before.
\<close>

theorem createReplica_gate_closed:
  assumes "map_of (fs_attrs s) ''syncEnabled'' = Some (PBool False)"
    and "map_of (fs_attrs s) ''capabilities'' = Some caps"
    and "py_contains ''Extract'' caps = Inr False"
  shows "createReplica E s a lg = Some (Inr PNone, lg)"
  using assms
  by (simp add: createReplica_def createReplica_gate_def hasattr_def getattr_def py_eq_bool_def)

theorem createReplica_gate_closed_witness:
  "map_of (fs_attrs gated_service) ''syncEnabled'' = Some (PBool False)
   \<and> map_of (fs_attrs gated_service) ''capabilities'' = Some (PStr ''Query,Editing'')
   \<and> py_contains ''Extract'' (PStr ''Query,Editing'') = Inr False
   \<and> createReplica (mock_env (scripted [])) gated_service wait_args [] = Some (Inr PNone, [])"
proof -
  have a: "map_of (fs_attrs gated_service) ''syncEnabled'' = Some (PBool False)" by code_simp
  have b: "map_of (fs_attrs gated_service) ''capabilities'' = Some (PStr ''Query,Editing'')"
    by code_simp
  have c: "py_contains ''Extract'' (PStr ''Query,Editing'') = Inr False" by code_simp
  show ?thesis using a b c createReplica_gate_closed[OF a b c] by simp
qed

section \<open>Properties of dicts\<close>

lemma map_of_dict_set: "map_of (dict_set k v d) = (map_of d)(k \<mapsto> v)"
  by (simp add: dict_set_def update_conv')

lemma map_of_dict_update:
  "map_of (dict_update d e) k = (case map_of e k of Some v \<Rightarrow> Some v | None \<Rightarrow> map_of d k)"
  by (induction e) (auto simp: dict_update_def map_of_dict_set)

lemma map_of_dict_update_absent:
  "k \<notin> fst ` set e \<Longrightarrow> map_of (dict_update d e) k = map_of d k"
  by (simp add: map_of_dict_update map_of_eq_None_iff[THEN iffD2])

lemma copy_key_present:
  "map_of gf src = Some v \<Longrightarrow> copy_key gf src dst params = Inr (dict_set dst v params)"
  by (simp add: copy_key_def)

section \<open>The validated dataFormat\<close>

lemma createReplica_params_invalid:
  assumes "\<forall>x. dataFormat a = PStr x \<longrightarrow> lower x \<notin> set dataformat"
  shows "\<exists>e. createReplica_params a = Inl e"
  using assms by (cases "dataFormat a") (simp_all add: createReplica_params_def py_lower_def)

lemma createReplica_params_valid:
  assumes "dataFormat a = PStr x" and "lower x \<in> set dataformat"
    and "\<forall>gf. geometryFilter a = PDict gf \<longrightarrow> map_of gf ''dataFormat'' = None"
  shows "\<exists>params. createReplica_params a = Inr params \<and>
           map_of params ''dataFormat'' = Some (PStr (lower x))"
  using assms
  by (cases "geometryFilter a")
     (simp_all add: createReplica_params_def py_lower_def Let_def map_of_dict_set
        map_of_dict_update)



section \<open>The error key of a query response\<close>



section \<open>A single feature and a one-element list\<close>

text \<open>
  C6. \<open>addFeature\<close> and \<open>updateFeature\<close> called with one feature mapping build the same
  parameters, serialized \<open>features\<close> included, and behave the same, as when called with
  the list holding just that mapping; called with a value that is neither a mapping nor a
  list they raise \<open>ValueError\<close> and send nothing.
\<close>

theorem single_feature_as_list:
  "FeatureLayer_addFeature_params E (PDict m) gdb rb =
     FeatureLayer_addFeature_params E (PList [PDict m]) gdb rb
   \<and> FeatureLayer_updateFeature_params E (PDict m) gdb rb =
       FeatureLayer_updateFeature_params E (PList [PDict m]) gdb rb
   \<and> FeatureLayer_addFeature E l (PDict m) gdb rb lg =
       FeatureLayer_addFeature E l (PList [PDict m]) gdb rb lg
   \<and> FeatureLayer_updateFeature E l (PDict m) gdb rb lg =
       FeatureLayer_updateFeature E l (PList [PDict m]) gdb rb lg
   \<and> ((\<forall>d. f \<noteq> PDict d) \<and> (\<forall>xs. f \<noteq> PList xs) \<longrightarrow>
        (\<exists>v. FeatureLayer_addFeature E l f gdb rb lg = (Inl (ValueError v), lg)) \<and>
        (\<exists>v. FeatureLayer_updateFeature E l f gdb rb lg = (Inl (ValueError v), lg)))"
  by (cases f)
     (simp_all add: FeatureLayer_addFeature_def FeatureLayer_updateFeature_def
        FeatureLayer_addFeature_params_def FeatureLayer_updateFeature_params_def Let_def
        is_dict_def is_list_def)

theorem single_feature_as_list_witness:
  "FeatureLayer_addFeature_params (mock_env (scripted [])) (PDict demo_feature) PNone (PBool True) =
     FeatureLayer_addFeature_params (mock_env (scripted [])) (PList [PDict demo_feature]) PNone
       (PBool True)
   \<and> (\<exists>v. FeatureLayer_addFeature (mock_env (scripted [])) demo_layer (PStr ''feature'') PNone
            (PBool True) [] = (Inl (ValueError v), []))
   \<and> (\<exists>v. FeatureLayer_updateFeature (mock_env (scripted [])) demo_layer (PStr ''feature'') PNone
            (PBool True) [] = (Inl (ValueError v), []))"
proof -
  have n: "(\<forall>d. PStr ''feature'' \<noteq> PDict d) \<and> (\<forall>xs. PStr ''feature'' \<noteq> PList xs)" by simp
  show ?thesis
    using single_feature_as_list
            [of "mock_env (scripted [])" demo_feature PNone "PBool True" demo_layer "[]"
                "PStr ''feature''"] n
    by blast
qed

section \<open>The parameters of the query operations\<close>

lemma service_geometry_present:
  assumes "map_of gf ''geometry'' = Some g" and "map_of gf ''geometryType'' = Some gt"
    and "map_of gf ''spatialRel'' = Some sr" and "map_of gf ''inSR'' = Some isr"
  shows "service_query_geometry (PDict gf) p =
           Inr (dict_set ''inSR'' isr (dict_set ''geometry'' g
                  (dict_set ''spatialRel'' sr (dict_set ''geometryType'' gt p))))"
  using assms by (simp add: service_query_geometry_def ebind_def copy_key_present)

lemma layer_geometry_present:
  assumes "map_of gf ''geometry'' = Some g" and "map_of gf ''geometryType'' = Some gt"
    and "map_of gf ''spatialRel'' = Some sr" and "map_of gf ''inSR'' = Some isr"
  shows "layer_query_geometry (PDict gf) p =
           Inr (dict_set ''inSR'' isr (dict_set ''spatialRelationship'' sr
                  (dict_set ''geometryType'' gt (dict_set ''geometry'' g p))))"
  using assms by (simp add: layer_query_geometry_def ebind_def copy_key_present)

text \<open>The last step of either builder leaves every key it does not set as it finds it.\<close>

lemma service_tail_other:
  "x \<noteq> ''outSR'' \<Longrightarrow> x \<noteq> ''time'' \<Longrightarrow> map_of (service_query_tail a p) x = map_of p x"
  by (cases "sq_outSR a") (simp_all add: service_query_tail_def Let_def map_of_dict_set)

lemma service_tail_cong:
  "map_of p x = map_of q x \<Longrightarrow>
     map_of (service_query_tail a p) x = map_of (service_query_tail a q) x"
  by (cases "sq_outSR a") (auto simp: service_query_tail_def Let_def map_of_dict_set)

lemma service_tail_unset:
  "sq_outSR a = PNone \<Longrightarrow> map_of (service_query_tail a p) ''outSR'' = map_of p ''outSR''"
  "sq_timeFilter a = PNone \<Longrightarrow> map_of (service_query_tail a p) ''time'' = map_of p ''time''"
  by (cases "sq_outSR a"; simp add: service_query_tail_def Let_def map_of_dict_set)+

lemma layer_tail_other:
  "x \<notin> {''objectIds'', ''resultOffset'', ''resultRecordCount'', ''groupByFieldsForStatistics'',
         ''outStatistics''} \<Longrightarrow>
     map_of (layer_query_tail a p) x = map_of p x"
  by (simp add: layer_query_tail_def Let_def map_of_dict_set)

lemma layer_tail_cong:
  "map_of p x = map_of q x \<Longrightarrow> map_of (layer_query_tail a p) x = map_of (layer_query_tail a q) x"
  by (auto simp: layer_query_tail_def Let_def map_of_dict_set)

lemma layer_tail_unset:
  "lq_objectIds b \<in> {PNone, PStr []} \<Longrightarrow>
     map_of (layer_query_tail b p) ''objectIds'' = map_of p ''objectIds''"
  "lq_resultOffset b \<in> {PNone, PStr []} \<Longrightarrow>
     map_of (layer_query_tail b p) ''resultOffset'' = map_of p ''resultOffset''"
  "lq_resultRecordCount b \<in> {PNone, PStr []} \<Longrightarrow>
     map_of (layer_query_tail b p) ''resultRecordCount'' = map_of p ''resultRecordCount''"
  "lq_groupByFieldsForStatistics b = PNone \<Longrightarrow>
     map_of (layer_query_tail b p) ''groupByFieldsForStatistics'' =
       map_of p ''groupByFieldsForStatistics''"
  "lq_statisticFilter b = PNone \<Longrightarrow>
     map_of (layer_query_tail b p) ''outStatistics'' = map_of p ''outStatistics''"
  by (auto simp: layer_query_tail_def Let_def map_of_dict_set nonempty_def)

lemma service_head_tail_ignore_filter:
  "service_query_head (a\<lparr>sq_geometryFilter := v\<rparr>) = service_query_head a"
  "service_query_tail (a\<lparr>sq_geometryFilter := v\<rparr>) p = service_query_tail a p"
  by (simp_all add: service_query_head_def service_query_tail_def Let_def)

lemma layer_head_tail_ignore_filter:
  "layer_query_head (b\<lparr>lq_geometryFilter := v\<rparr>) = layer_query_head b"
  "layer_query_tail (b\<lparr>lq_geometryFilter := v\<rparr>) p = layer_query_tail b p"
  by (simp_all add: layer_query_head_def layer_query_tail_def Let_def)

lemma service_head_absent:
  assumes "k \<notin> {''f'', ''returnGeometry'', ''returnIdsOnly'', ''returnCountOnly'', ''returnZ'',
                 ''returnM''}"
    and "k = ''layerDefs'' \<longrightarrow> sq_layerDefsFilter a = PNone"
  shows "map_of (service_query_head a) k = None"
  using assms by (auto simp: service_query_head_def Let_def map_of_dict_set)

lemma layer_head_absent:
  assumes "k \<notin> {''f'', ''where'', ''outFields'', ''returnGeometry'', ''returnIdsOnly'',
                 ''returnCountOnly'', ''returnDistinctValues'', ''returnExtentOnly''}"
    and "k \<notin> fst ` set (lq_kwargs b)"
    and "k = ''time'' \<longrightarrow> lq_timeFilter b = PNone"
  shows "map_of (layer_query_head b) k = None"
  using assms
  by (auto simp: layer_query_head_def Let_def map_of_dict_set map_of_dict_update_absent)

text \<open>With a geometry filter: the parameters without it, plus the four entries.\<close>

lemma service_query_filter:
  assumes gf: "sq_geometryFilter a = PDict gf"
    and ks: "map_of gf ''geometry'' = Some g" "map_of gf ''geometryType'' = Some gt"
      "map_of gf ''spatialRel'' = Some sr" "map_of gf ''inSR'' = Some isr"
  shows "\<exists>p p0. FeatureService_query_params a = Inr p \<and>
           FeatureService_query_params (a\<lparr>sq_geometryFilter := PNone\<rparr>) = Inr p0 \<and>
           map_of p = (map_of p0)(''geometry'' \<mapsto> g, ''geometryType'' \<mapsto> gt,
                                  ''spatialRel'' \<mapsto> sr, ''inSR'' \<mapsto> isr)"
proof -
  let ?h = "service_query_head a"
  let ?q = "dict_set ''inSR'' isr (dict_set ''geometry'' g
              (dict_set ''spatialRel'' sr (dict_set ''geometryType'' gt ?h)))"
  have p: "FeatureService_query_params a = Inr (service_query_tail a ?q)"
    by (simp add: FeatureService_query_params_def gf service_geometry_present[OF ks] ebind_def)
  have p0: "FeatureService_query_params (a\<lparr>sq_geometryFilter := PNone\<rparr>) =
              Inr (service_query_tail a ?h)"
    by (simp add: FeatureService_query_params_def service_head_tail_ignore_filter
          service_query_geometry_def ebind_def)
  have "map_of (service_query_tail a ?q) x =
          ((map_of (service_query_tail a ?h))(''geometry'' \<mapsto> g, ''geometryType'' \<mapsto> gt,
             ''spatialRel'' \<mapsto> sr, ''inSR'' \<mapsto> isr)) x" for x
  proof (cases "x \<in> {''geometry'', ''geometryType'', ''spatialRel'', ''inSR''}")
    case True
    then have "map_of (service_query_tail a ?q) x = map_of ?q x"
      by (intro service_tail_other) auto
    with True show ?thesis by (auto simp: map_of_dict_set)
  next
    case False
    then have "map_of ?q x = map_of ?h x" by (simp add: map_of_dict_set)
    then have "map_of (service_query_tail a ?q) x = map_of (service_query_tail a ?h) x"
      by (rule service_tail_cong)
    with False show ?thesis by simp
  qed
  then have "map_of (service_query_tail a ?q) =
          (map_of (service_query_tail a ?h))(''geometry'' \<mapsto> g, ''geometryType'' \<mapsto> gt,
             ''spatialRel'' \<mapsto> sr, ''inSR'' \<mapsto> isr)" by (rule ext)
  with p p0 show ?thesis by blast
qed

lemma layer_query_filter:
  assumes gf: "lq_geometryFilter b = PDict gf"
    and ks: "map_of gf ''geometry'' = Some g" "map_of gf ''geometryType'' = Some gt"
      "map_of gf ''spatialRel'' = Some sr" "map_of gf ''inSR'' = Some isr"
  shows "\<exists>p p0. FeatureLayer_query_params b = Inr p \<and>
           FeatureLayer_query_params (b\<lparr>lq_geometryFilter := PNone\<rparr>) = Inr p0 \<and>
           map_of p = (map_of p0)(''geometry'' \<mapsto> g, ''geometryType'' \<mapsto> gt,
                                  ''spatialRelationship'' \<mapsto> sr, ''inSR'' \<mapsto> isr)"
proof -
  let ?h = "layer_query_head b"
  let ?q = "dict_set ''inSR'' isr (dict_set ''spatialRelationship'' sr
              (dict_set ''geometryType'' gt (dict_set ''geometry'' g ?h)))"
  have p: "FeatureLayer_query_params b = Inr (layer_query_tail b ?q)"
    by (simp add: FeatureLayer_query_params_def gf layer_geometry_present[OF ks] ebind_def)
  have p0: "FeatureLayer_query_params (b\<lparr>lq_geometryFilter := PNone\<rparr>) =
              Inr (layer_query_tail b ?h)"
    by (simp add: FeatureLayer_query_params_def layer_head_tail_ignore_filter
          layer_query_geometry_def ebind_def)
  have "map_of (layer_query_tail b ?q) x =
          ((map_of (layer_query_tail b ?h))(''geometry'' \<mapsto> g, ''geometryType'' \<mapsto> gt,
             ''spatialRelationship'' \<mapsto> sr, ''inSR'' \<mapsto> isr)) x" for x
  proof (cases "x \<in> {''geometry'', ''geometryType'', ''spatialRelationship'', ''inSR''}")
    case True
    then have "map_of (layer_query_tail b ?q) x = map_of ?q x"
      by (intro layer_tail_other) auto
    with True show ?thesis by (auto simp: map_of_dict_set)
  next
    case False
    then have "map_of ?q x = map_of ?h x" by (simp add: map_of_dict_set)
    then have "map_of (layer_query_tail b ?q) x = map_of (layer_query_tail b ?h) x"
      by (rule layer_tail_cong)
    with False show ?thesis by simp
  qed
  then have "map_of (layer_query_tail b ?q) =
          (map_of (layer_query_tail b ?h))(''geometry'' \<mapsto> g, ''geometryType'' \<mapsto> gt,
             ''spatialRelationship'' \<mapsto> sr, ''inSR'' \<mapsto> isr)" by (rule ext)
  with p p0 show ?thesis by blast
qed

text \<open>Without a geometry filter: none of the four keys, and no key of an unset option.\<close>

lemma service_query_no_filter:
  assumes "sq_geometryFilter a = PNone"
  shows "\<exists>p. FeatureService_query_params a = Inr p \<and>
           map_of p ''geometry'' = None \<and> map_of p ''geometryType'' = None \<and>
           map_of p ''spatialRel'' = None \<and> map_of p ''inSR'' = None \<and>
           (sq_layerDefsFilter a = PNone \<longrightarrow> map_of p ''layerDefs'' = None) \<and>
           (sq_outSR a = PNone \<longrightarrow> map_of p ''outSR'' = None) \<and>
           (sq_timeFilter a = PNone \<longrightarrow> map_of p ''time'' = None)"
proof -
  let ?h = "service_query_head a"
  have p: "FeatureService_query_params a = Inr (service_query_tail a ?h)"
    using assms by (simp add: FeatureService_query_params_def service_query_geometry_def ebind_def)
  have "map_of (service_query_tail a ?h) ''geometry'' = None"
    "map_of (service_query_tail a ?h) ''geometryType'' = None"
    "map_of (service_query_tail a ?h) ''spatialRel'' = None"
    "map_of (service_query_tail a ?h) ''inSR'' = None"
    "sq_layerDefsFilter a = PNone \<longrightarrow> map_of (service_query_tail a ?h) ''layerDefs'' = None"
    by (simp_all add: service_tail_other service_head_absent)
  moreover have "sq_outSR a = PNone \<longrightarrow> map_of (service_query_tail a ?h) ''outSR'' = None"
    by (simp add: service_tail_unset service_head_absent)
  moreover have "sq_timeFilter a = PNone \<longrightarrow> map_of (service_query_tail a ?h) ''time'' = None"
    by (simp add: service_tail_unset service_head_absent)
  ultimately show ?thesis using p by blast
qed

lemma layer_query_no_filter:
  assumes "lq_geometryFilter b = PNone"
  shows "\<exists>p. FeatureLayer_query_params b = Inr p \<and>
           (\<forall>k \<in> {''geometry'', ''geometryType'', ''spatialRelationship'', ''inSR''}.
              k \<notin> fst ` set (lq_kwargs b) \<longrightarrow> map_of p k = None) \<and>
           (lq_timeFilter b = PNone \<and> ''time'' \<notin> fst ` set (lq_kwargs b) \<longrightarrow>
              map_of p ''time'' = None) \<and>
           (lq_objectIds b \<in> {PNone, PStr []} \<and> ''objectIds'' \<notin> fst ` set (lq_kwargs b) \<longrightarrow>
              map_of p ''objectIds'' = None) \<and>
           (lq_resultOffset b \<in> {PNone, PStr []} \<and>
              ''resultOffset'' \<notin> fst ` set (lq_kwargs b) \<longrightarrow>
              map_of p ''resultOffset'' = None) \<and>
           (lq_resultRecordCount b \<in> {PNone, PStr []} \<and>
              ''resultRecordCount'' \<notin> fst ` set (lq_kwargs b) \<longrightarrow>
              map_of p ''resultRecordCount'' = None) \<and>
           (lq_groupByFieldsForStatistics b = PNone \<and>
              ''groupByFieldsForStatistics'' \<notin> fst ` set (lq_kwargs b) \<longrightarrow>
              map_of p ''groupByFieldsForStatistics'' = None) \<and>
           (lq_statisticFilter b = PNone \<and> ''outStatistics'' \<notin> fst ` set (lq_kwargs b) \<longrightarrow>
              map_of p ''outStatistics'' = None)"
proof -
  let ?h = "layer_query_head b"
  let ?p = "layer_query_tail b ?h"
  have p: "FeatureLayer_query_params b = Inr ?p"
    using assms by (simp add: FeatureLayer_query_params_def layer_query_geometry_def ebind_def)
  have g: "\<forall>k \<in> {''geometry'', ''geometryType'', ''spatialRelationship'', ''inSR''}.
              k \<notin> fst ` set (lq_kwargs b) \<longrightarrow> map_of ?p k = None"
    by (simp add: layer_tail_other layer_head_absent)
  have t: "lq_timeFilter b = PNone \<and> ''time'' \<notin> fst ` set (lq_kwargs b) \<longrightarrow>
              map_of ?p ''time'' = None"
    by (simp add: layer_tail_other layer_head_absent)
  have o: "lq_objectIds b \<in> {PNone, PStr []} \<and> ''objectIds'' \<notin> fst ` set (lq_kwargs b) \<longrightarrow>
              map_of ?p ''objectIds'' = None"
    using layer_tail_unset(1)[of b ?h] by (simp add: layer_head_absent)
  have ro: "lq_resultOffset b \<in> {PNone, PStr []} \<and>
              ''resultOffset'' \<notin> fst ` set (lq_kwargs b) \<longrightarrow> map_of ?p ''resultOffset'' = None"
    using layer_tail_unset(2)[of b ?h] by (simp add: layer_head_absent)
  have rc: "lq_resultRecordCount b \<in> {PNone, PStr []} \<and>
              ''resultRecordCount'' \<notin> fst ` set (lq_kwargs b) \<longrightarrow>
              map_of ?p ''resultRecordCount'' = None"
    using layer_tail_unset(3)[of b ?h] by (simp add: layer_head_absent)
  have gb: "lq_groupByFieldsForStatistics b = PNone \<and>
              ''groupByFieldsForStatistics'' \<notin> fst ` set (lq_kwargs b) \<longrightarrow>
              map_of ?p ''groupByFieldsForStatistics'' = None"
    using layer_tail_unset(4)[of b ?h] by (simp add: layer_head_absent)
  have os: "lq_statisticFilter b = PNone \<and> ''outStatistics'' \<notin> fst ` set (lq_kwargs b) \<longrightarrow>
              map_of ?p ''outStatistics'' = None"
    using layer_tail_unset(5)[of b ?h] by (simp add: layer_head_absent)
  from p g t o ro rc gb os show ?thesis by blast
qed

text \<open>
  C7. The parameters composed by the service-level and the layer-level query. With a
  geometry filter mapping (one that holds the four entries) they are the parameters
  composed without it plus exactly four entries copied from the filter: \<open>geometry\<close>,
  \<open>geometryType\<close>, \<open>inSR\<close> and \<open>spatialRel\<close> (service) or \<open>spatialRelationship\<close>
  (layer). Without a filter none of the four keys is present, and no optional filter
  left unset contributes a key; on a layer this is so for every key the caller does not
  pass as an extra keyword argument, which the operation forwards verbatim. The
  parameters composed are the ones sent.
\<close>

theorem query_geometry_filter_params:
  "(\<forall>gf g gt sr isr.
      sq_geometryFilter a = PDict gf \<and> map_of gf ''geometry'' = Some g \<and>
      map_of gf ''geometryType'' = Some gt \<and> map_of gf ''spatialRel'' = Some sr \<and>
      map_of gf ''inSR'' = Some isr \<longrightarrow>
      (\<exists>p p0. FeatureService_query_params a = Inr p \<and>
         FeatureService_query_params (a\<lparr>sq_geometryFilter := PNone\<rparr>) = Inr p0 \<and>
         map_of p = (map_of p0)(''geometry'' \<mapsto> g, ''geometryType'' \<mapsto> gt,
                                ''spatialRel'' \<mapsto> sr, ''inSR'' \<mapsto> isr)))
   \<and> (sq_geometryFilter a = PNone \<longrightarrow>
      (\<exists>p. FeatureService_query_params a = Inr p \<and>
         map_of p ''geometry'' = None \<and> map_of p ''geometryType'' = None \<and>
         map_of p ''spatialRel'' = None \<and> map_of p ''inSR'' = None \<and>
         (sq_layerDefsFilter a = PNone \<longrightarrow> map_of p ''layerDefs'' = None) \<and>
         (sq_outSR a = PNone \<longrightarrow> map_of p ''outSR'' = None) \<and>
         (sq_timeFilter a = PNone \<longrightarrow> map_of p ''time'' = None)))
   \<and> (\<forall>gf g gt sr isr.
      lq_geometryFilter b = PDict gf \<and> map_of gf ''geometry'' = Some g \<and>
      map_of gf ''geometryType'' = Some gt \<and> map_of gf ''spatialRel'' = Some sr \<and>
      map_of gf ''inSR'' = Some isr \<longrightarrow>
      (\<exists>p p0. FeatureLayer_query_params b = Inr p \<and>
         FeatureLayer_query_params (b\<lparr>lq_geometryFilter := PNone\<rparr>) = Inr p0 \<and>
         map_of p = (map_of p0)(''geometry'' \<mapsto> g, ''geometryType'' \<mapsto> gt,
                                ''spatialRelationship'' \<mapsto> sr, ''inSR'' \<mapsto> isr)))
   \<and> (lq_geometryFilter b = PNone \<longrightarrow>
      (\<exists>p. FeatureLayer_query_params b = Inr p \<and>
         (\<forall>k \<in> {''geometry'', ''geometryType'', ''spatialRelationship'', ''inSR''}.
            k \<notin> fst ` set (lq_kwargs b) \<longrightarrow> map_of p k = None) \<and>
         (lq_timeFilter b = PNone \<and> ''time'' \<notin> fst ` set (lq_kwargs b) \<longrightarrow>
            map_of p ''time'' = None) \<and>
         (lq_objectIds b \<in> {PNone, PStr []} \<and> ''objectIds'' \<notin> fst ` set (lq_kwargs b) \<longrightarrow>
            map_of p ''objectIds'' = None) \<and>
         (lq_resultOffset b \<in> {PNone, PStr []} \<and>
            ''resultOffset'' \<notin> fst ` set (lq_kwargs b) \<longrightarrow>
            map_of p ''resultOffset'' = None) \<and>
         (lq_resultRecordCount b \<in> {PNone, PStr []} \<and>
            ''resultRecordCount'' \<notin> fst ` set (lq_kwargs b) \<longrightarrow>
            map_of p ''resultRecordCount'' = None) \<and>
         (lq_groupByFieldsForStatistics b = PNone \<and>
            ''groupByFieldsForStatistics'' \<notin> fst ` set (lq_kwargs b) \<longrightarrow>
            map_of p ''groupByFieldsForStatistics'' = None) \<and>
         (lq_statisticFilter b = PNone \<and> ''outStatistics'' \<notin> fst ` set (lq_kwargs b) \<longrightarrow>
            map_of p ''outStatistics'' = None)))
   \<and> (\<forall>p. FeatureService_query_params a = Inr p \<longrightarrow>
         FeatureService_query E s a lg =
           (transport E lg (GET (fs_url s @ ''/query'') p), lg @ [GET (fs_url s @ ''/query'') p]))
   \<and> (\<forall>p. FeatureLayer_query_params b = Inr p \<longrightarrow>
         snd (FeatureLayer_query E l b lg) = lg @ [POST (fl_url l @ ''/query'') p []])"
proof (intro conjI)
  show "\<forall>gf g gt sr isr.
      sq_geometryFilter a = PDict gf \<and> map_of gf ''geometry'' = Some g \<and>
      map_of gf ''geometryType'' = Some gt \<and> map_of gf ''spatialRel'' = Some sr \<and>
      map_of gf ''inSR'' = Some isr \<longrightarrow>
      (\<exists>p p0. FeatureService_query_params a = Inr p \<and>
         FeatureService_query_params (a\<lparr>sq_geometryFilter := PNone\<rparr>) = Inr p0 \<and>
         map_of p = (map_of p0)(''geometry'' \<mapsto> g, ''geometryType'' \<mapsto> gt,
                                ''spatialRel'' \<mapsto> sr, ''inSR'' \<mapsto> isr))"
    by (intro allI impI, elim conjE, rule service_query_filter)
next
  show "sq_geometryFilter a = PNone \<longrightarrow>
      (\<exists>p. FeatureService_query_params a = Inr p \<and>
         map_of p ''geometry'' = None \<and> map_of p ''geometryType'' = None \<and>
         map_of p ''spatialRel'' = None \<and> map_of p ''inSR'' = None \<and>
         (sq_layerDefsFilter a = PNone \<longrightarrow> map_of p ''layerDefs'' = None) \<and>
         (sq_outSR a = PNone \<longrightarrow> map_of p ''outSR'' = None) \<and>
         (sq_timeFilter a = PNone \<longrightarrow> map_of p ''time'' = None))"
    by (intro impI, rule service_query_no_filter)
next
  show "\<forall>gf g gt sr isr.
      lq_geometryFilter b = PDict gf \<and> map_of gf ''geometry'' = Some g \<and>
      map_of gf ''geometryType'' = Some gt \<and> map_of gf ''spatialRel'' = Some sr \<and>
      map_of gf ''inSR'' = Some isr \<longrightarrow>
      (\<exists>p p0. FeatureLayer_query_params b = Inr p \<and>
         FeatureLayer_query_params (b\<lparr>lq_geometryFilter := PNone\<rparr>) = Inr p0 \<and>
         map_of p = (map_of p0)(''geometry'' \<mapsto> g, ''geometryType'' \<mapsto> gt,
                                ''spatialRelationship'' \<mapsto> sr, ''inSR'' \<mapsto> isr))"
    by (intro allI impI, elim conjE, rule layer_query_filter)
next
  show "lq_geometryFilter b = PNone \<longrightarrow>
      (\<exists>p. FeatureLayer_query_params b = Inr p \<and>
         (\<forall>k \<in> {''geometry'', ''geometryType'', ''spatialRelationship'', ''inSR''}.
            k \<notin> fst ` set (lq_kwargs b) \<longrightarrow> map_of p k = None) \<and>
         (lq_timeFilter b = PNone \<and> ''time'' \<notin> fst ` set (lq_kwargs b) \<longrightarrow>
            map_of p ''time'' = None) \<and>
         (lq_objectIds b \<in> {PNone, PStr []} \<and> ''objectIds'' \<notin> fst ` set (lq_kwargs b) \<longrightarrow>
            map_of p ''objectIds'' = None) \<and>
         (lq_resultOffset b \<in> {PNone, PStr []} \<and>
            ''resultOffset'' \<notin> fst ` set (lq_kwargs b) \<longrightarrow>
            map_of p ''resultOffset'' = None) \<and>
         (lq_resultRecordCount b \<in> {PNone, PStr []} \<and>
            ''resultRecordCount'' \<notin> fst ` set (lq_kwargs b) \<longrightarrow>
            map_of p ''resultRecordCount'' = None) \<and>
         (lq_groupByFieldsForStatistics b = PNone \<and>
            ''groupByFieldsForStatistics'' \<notin> fst ` set (lq_kwargs b) \<longrightarrow>
            map_of p ''groupByFieldsForStatistics'' = None) \<and>
         (lq_statisticFilter b = PNone \<and> ''outStatistics'' \<notin> fst ` set (lq_kwargs b) \<longrightarrow>
            map_of p ''outStatistics'' = None))"
    by (intro impI, rule layer_query_no_filter)
next
  show "\<forall>p. FeatureService_query_params a = Inr p \<longrightarrow>
         FeatureService_query E s a lg =
           (transport E lg (GET (fs_url s @ ''/query'') p), lg @ [GET (fs_url s @ ''/query'') p])"
    by (simp add: FeatureService_query_def send_def)
next
  show "\<forall>p. FeatureLayer_query_params b = Inr p \<longrightarrow>
         snd (FeatureLayer_query E l b lg) = lg @ [POST (fl_url l @ ''/query'') p []]"
    by (auto simp: FeatureLayer_query_def send_def split: prod.splits sum.splits bool.splits)
qed

theorem query_geometry_filter_params_witness:
  "(\<exists>p. FeatureService_query_params service_filter_args = Inr p \<and>
      map_of p ''geometry'' = Some (PStr ''1,2'') \<and>
      map_of p ''geometryType'' = Some (PStr ''esriGeometryPoint'') \<and>
      map_of p ''spatialRel'' = Some (PStr ''esriSpatialRelIntersects'') \<and>
      map_of p ''inSR'' = Some (PInt 4326))
   \<and> (\<exists>p. FeatureService_query_params service_query_defaults = Inr p \<and>
      map_of p ''geometry'' = None \<and> map_of p ''geometryType'' = None \<and>
      map_of p ''spatialRel'' = None \<and> map_of p ''inSR'' = None \<and>
      map_of p ''layerDefs'' = None \<and> map_of p ''outSR'' = None \<and> map_of p ''time'' = None)
   \<and> (\<exists>p. FeatureLayer_query_params layer_filter_args = Inr p \<and>
      map_of p ''geometry'' = Some (PStr ''1,2'') \<and>
      map_of p ''geometryType'' = Some (PStr ''esriGeometryPoint'') \<and>
      map_of p ''spatialRelationship'' = Some (PStr ''esriSpatialRelIntersects'') \<and>
      map_of p ''inSR'' = Some (PInt 4326))
   \<and> (\<exists>p. FeatureLayer_query_params layer_query_defaults = Inr p \<and>
      map_of p ''geometry'' = None \<and> map_of p ''geometryType'' = None \<and>
      map_of p ''spatialRelationship'' = None \<and> map_of p ''inSR'' = None \<and>
      map_of p ''time'' = None \<and> map_of p ''objectIds'' = None \<and>
      map_of p ''resultOffset'' = None \<and> map_of p ''resultRecordCount'' = None \<and>
      map_of p ''groupByFieldsForStatistics'' = None \<and> map_of p ''outStatistics'' = None)"
proof -
  have f: "map_of demo_filter ''geometry'' = Some (PStr ''1,2'')"
    "map_of demo_filter ''geometryType'' = Some (PStr ''esriGeometryPoint'')"
    "map_of demo_filter ''spatialRel'' = Some (PStr ''esriSpatialRelIntersects'')"
    "map_of demo_filter ''inSR'' = Some (PInt 4326)"
    by code_simp+
  have sf: "sq_geometryFilter service_filter_args = PDict demo_filter" by code_simp
  have lf: "lq_geometryFilter layer_filter_args = PDict demo_filter" by code_simp
  have sd: "sq_geometryFilter service_query_defaults = PNone"
    "sq_layerDefsFilter service_query_defaults = PNone"
    "sq_outSR service_query_defaults = PNone" "sq_timeFilter service_query_defaults = PNone"
    by code_simp+
  have ld: "lq_geometryFilter layer_query_defaults = PNone"
    "lq_timeFilter layer_query_defaults = PNone"
    "lq_objectIds layer_query_defaults = PStr []" "lq_resultOffset layer_query_defaults = PStr []"
    "lq_resultRecordCount layer_query_defaults = PStr []"
    "lq_groupByFieldsForStatistics layer_query_defaults = PNone"
    "lq_statisticFilter layer_query_defaults = PNone" "lq_kwargs layer_query_defaults = []"
    by code_simp+
  note T1 = query_geometry_filter_params[of service_filter_args layer_filter_args]
  note T2 = query_geometry_filter_params[of service_query_defaults layer_query_defaults]
  have A: "\<exists>p. FeatureService_query_params service_filter_args = Inr p \<and>
      map_of p ''geometry'' = Some (PStr ''1,2'') \<and>
      map_of p ''geometryType'' = Some (PStr ''esriGeometryPoint'') \<and>
      map_of p ''spatialRel'' = Some (PStr ''esriSpatialRelIntersects'') \<and>
      map_of p ''inSR'' = Some (PInt 4326)"
  proof -
    from T1[THEN conjunct1] sf f obtain p p0 where
      "FeatureService_query_params service_filter_args = Inr p"
      "map_of p = (map_of p0)(''geometry'' \<mapsto> PStr ''1,2'',
         ''geometryType'' \<mapsto> PStr ''esriGeometryPoint'',
         ''spatialRel'' \<mapsto> PStr ''esriSpatialRelIntersects'', ''inSR'' \<mapsto> PInt 4326)"
      by blast
    then show ?thesis by simp
  qed
  have B: "\<exists>p. FeatureService_query_params service_query_defaults = Inr p \<and>
      map_of p ''geometry'' = None \<and> map_of p ''geometryType'' = None \<and>
      map_of p ''spatialRel'' = None \<and> map_of p ''inSR'' = None \<and>
      map_of p ''layerDefs'' = None \<and> map_of p ''outSR'' = None \<and> map_of p ''time'' = None"
    using T2[THEN conjunct2, THEN conjunct1] sd by simp
  have C: "\<exists>p. FeatureLayer_query_params layer_filter_args = Inr p \<and>
      map_of p ''geometry'' = Some (PStr ''1,2'') \<and>
      map_of p ''geometryType'' = Some (PStr ''esriGeometryPoint'') \<and>
      map_of p ''spatialRelationship'' = Some (PStr ''esriSpatialRelIntersects'') \<and>
      map_of p ''inSR'' = Some (PInt 4326)"
  proof -
    from T1[THEN conjunct2, THEN conjunct2, THEN conjunct1] lf f obtain p p0 where
      "FeatureLayer_query_params layer_filter_args = Inr p"
      "map_of p = (map_of p0)(''geometry'' \<mapsto> PStr ''1,2'',
         ''geometryType'' \<mapsto> PStr ''esriGeometryPoint'',
         ''spatialRelationship'' \<mapsto> PStr ''esriSpatialRelIntersects'', ''inSR'' \<mapsto> PInt 4326)"
      by blast
    then show ?thesis by simp
  qed
  have D: "\<exists>p. FeatureLayer_query_params layer_query_defaults = Inr p \<and>
      map_of p ''geometry'' = None \<and> map_of p ''geometryType'' = None \<and>
      map_of p ''spatialRelationship'' = None \<and> map_of p ''inSR'' = None \<and>
      map_of p ''time'' = None \<and> map_of p ''objectIds'' = None \<and>
      map_of p ''resultOffset'' = None \<and> map_of p ''resultRecordCount'' = None \<and>
      map_of p ''groupByFieldsForStatistics'' = None \<and> map_of p ''outStatistics'' = None"
    using T2[THEN conjunct2, THEN conjunct2, THEN conjunct2, THEN conjunct1] ld by simp
  from A B C D show ?thesis by blast
qed

section \<open>Adding an attachment\<close>

text \<open>
  What \<open>addAttachment\<close> does on either side of its test of \<open>hasAttachments\<close>: false, the
  explanatory string and no request; true, the POST of \<open>/{oid}/addAttachment\<close> with the
  file, provided line 485, \<open>urlparse.urlparse(attachURL)\<close>, returns.
\<close>

lemma addAttachment_gated:
  "(map_of (fl_attrs l) ''hasAttachments'' = Some (PBool False) \<longrightarrow>
      FeatureLayer_addAttachment E l oid file_path lg =
        (Inr (PStr ''Attachments are not supported for this feature service.''), lg))
   \<and> (map_of (fl_attrs l) ''hasAttachments'' = Some (PBool True) \<and>
       urlparse_urlparse E (fl_url l @ ''/'' @ py_str E oid @ ''/addAttachment'') = None \<longrightarrow>
      FeatureLayer_addAttachment E l oid file_path lg =
        (transport E lg
           (POST (fl_url l @ ''/'' @ py_str E oid @ ''/addAttachment'') [(''f'', PStr ''json'')]
              [(''attachment'', file_path)]),
         lg @ [POST (fl_url l @ ''/'' @ py_str E oid @ ''/addAttachment'') [(''f'', PStr ''json'')]
                 [(''attachment'', file_path)]]))"
  by (simp add: FeatureLayer_addAttachment_def hasattr_def getattr_def py_eq_bool_def send_def
        Let_def)

text \<open>
  C8. On a layer whose metadata reports \<open>hasAttachments\<close> false, \<open>addAttachment\<close> sends
  nothing and returns the explanatory string. On a layer that reports it true, line 485
  raises \<open>AttributeError\<close> before the POST of line 488 is reached: no request is sent
  and no response returned.
\<close>

theorem addAttachment_raises_before_post:
  "FeatureLayer_addAttachment (six_env (answering (PDict features_body)))
     (attachments_layer False) (PInt 7) (PStr ''a.txt'') [] =
     (Inr (PStr ''Attachments are not supported for this feature service.''), [])
   \<and> FeatureLayer_addAttachment (six_env (answering (PDict features_body)))
       (attachments_layer True) (PInt 7) (PStr ''a.txt'') [] = (Inl AttributeError, [])"
  by code_simp

section \<open>Discovery of layers and tables\<close>

lemma append_children_all:
  assumes "\<forall>l \<in> set ls. \<exists>i. py_getitem l ''id'' = Inr i"
  shows "append_children E mk u ls acc =
           (None, acc @ map (\<lambda>l. mk (u @ ''/'' @ py_str E (projr (py_getitem l ''id'')))) ls)"
  using assms by (induction ls arbitrary: acc) auto

lemma load_layer_children_cached:
  assumes "fs_json_dict s = PDict d" and "map_of d ''layers'' = Some (PList ls)"
    and "\<forall>l \<in> set ls. \<exists>i. py_getitem l ''id'' = Inr i" and "fs_layers s = Some acc"
  shows "load_layer_children E s =
           (None, s\<lparr>fs_layers := Some (acc @ map (\<lambda>l. new_FeatureLayer
                     (fs_url s @ ''/'' @ py_str E (projr (py_getitem l ''id'')))) ls)\<rparr>)"
  using assms
  by (simp add: load_layer_children_def has_key_def ebind_def py_getitem_def py_iter_def
        append_children_all)

lemma load_table_children_cached:
  assumes "fs_json_dict s = PDict d" and "map_of d ''tables'' = Some (PList ts)"
    and "\<forall>l \<in> set ts. \<exists>i. py_getitem l ''id'' = Inr i" and "fs_tables s = Some acc"
  shows "load_table_children E s =
           (None, s\<lparr>fs_tables := Some (acc @ map (\<lambda>l. new_TableLayer
                     (fs_url s @ ''/'' @ py_str E (projr (py_getitem l ''id'')))) ts)\<rparr>)"
  using assms
  by (simp add: load_table_children_def has_key_def ebind_def py_getitem_def py_iter_def
        append_children_all)

text \<open>
  Discovery over metadata that is already cached: one child per entry, in the order of
  the entries, each at the service url followed by the entry's id.
\<close>

lemma load_layers_cached:
  assumes "fs_json_dict s = PDict d" and "map_of d ''layers'' = Some (PList ls)"
    and "map_of d ''tables'' = Some (PList ts)"
    and "\<forall>l \<in> set ls. \<exists>i. py_getitem l ''id'' = Inr i"
    and "\<forall>l \<in> set ts. \<exists>i. py_getitem l ''id'' = Inr i"
  shows "load_layers E s lg =
           (None,
            s\<lparr>fs_layers := Some (map (\<lambda>l. new_FeatureLayer
                     (fs_url s @ ''/'' @ py_str E (projr (py_getitem l ''id'')))) ls),
              fs_tables := Some (map (\<lambda>l. new_TableLayer
                     (fs_url s @ ''/'' @ py_str E (projr (py_getitem l ''id'')))) ts)\<rparr>,
            lg)"
proof -
  let ?s0 = "s\<lparr>fs_layers := Some [], fs_tables := Some []\<rparr>"
  have a: "load_layer_children E ?s0 =
           (None, ?s0\<lparr>fs_layers := Some ([] @ map (\<lambda>l. new_FeatureLayer
                     (fs_url ?s0 @ ''/'' @ py_str E (projr (py_getitem l ''id'')))) ls)\<rparr>)"
    by (rule load_layer_children_cached[where d = d]) (simp_all add: assms)
  let ?s1 = "?s0\<lparr>fs_layers := Some ([] @ map (\<lambda>l. new_FeatureLayer
                     (fs_url ?s0 @ ''/'' @ py_str E (projr (py_getitem l ''id'')))) ls)\<rparr>"
  have b: "load_table_children E ?s1 =
           (None, ?s1\<lparr>fs_tables := Some ([] @ map (\<lambda>l. new_TableLayer
                     (fs_url ?s1 @ ''/'' @ py_str E (projr (py_getitem l ''id'')))) ts)\<rparr>)"
    by (rule load_table_children_cached[where d = d]) (simp_all add: assms)
  show ?thesis
    using assms(1) a b by (simp add: load_layers.simps)
qed

text \<open>
  C9. A descriptor with nothing cached whose connection answers the metadata request
  with \<open>{"layers":[{"id":0}],"tables":[{"id":1}]}\<close>. Reading \<open>layers\<close> makes
  \<open>_load_layers\<close> call the loader, which stores the metadata and (line 40) runs
  \<open>_load_layers\<close> itself; back in the outer call the two loops run again on the same
  lists. The read yields two children at \<open>/0\<close>; the metadata is cached from then on,
  and every later read yields the same two layers and two tables at \<open>/1\<close>. With a base
  class that refuses the assignment of line 39 to the property \<open>layers\<close> the first read
  raises instead and later reads yield no child.
\<close>

theorem lazy_discovery_runs_twice:
  "fst (FeatureService_layers (mock_env (answering demo_metadata)) fresh_service []) =
     Inr (Some [new_FeatureLayer ''http://host/svc/0'', new_FeatureLayer ''http://host/svc/0''])
   \<and> fs_json_dict (after_first_read (mock_env (answering demo_metadata))) = demo_metadata
   \<and> fst (FeatureService_layers (mock_env (answering demo_metadata))
            (after_first_read (mock_env (answering demo_metadata))) []) =
       Inr (Some [new_FeatureLayer ''http://host/svc/0'', new_FeatureLayer ''http://host/svc/0''])
   \<and> fst (FeatureService_tables (mock_env (answering demo_metadata))
            (after_first_read (mock_env (answering demo_metadata))) []) =
       Inr (Some [new_TableLayer ''http://host/svc/1'', new_TableLayer ''http://host/svc/1''])
   \<and> fst (FeatureService_layers (new_style_env (answering demo_metadata)) fresh_service []) =
       Inl AttributeError
   \<and> fs_json_dict (after_first_read (new_style_env (answering demo_metadata))) = demo_metadata
   \<and> fst (FeatureService_layers (new_style_env (answering demo_metadata))
            (after_first_read (new_style_env (answering demo_metadata))) []) = Inr (Some [])"
  by code_simp

section \<open>The two caches are filled and cleared together\<close>

lemma load_children_keep_some:
  "load_layer_children E s = (r, s') \<Longrightarrow> fs_layers s \<noteq> None \<Longrightarrow> fs_tables s \<noteq> None \<Longrightarrow>
     fs_layers s' \<noteq> None \<and> fs_tables s' \<noteq> None"
  "load_table_children E s = (r, s') \<Longrightarrow> fs_layers s \<noteq> None \<Longrightarrow> fs_tables s \<noteq> None \<Longrightarrow>
     fs_layers s' \<noteq> None \<and> fs_tables s' \<noteq> None"
  by (auto simp: load_layer_children_def load_table_children_def
           split: if_splits sum.splits option.splits prod.splits)

lemma discover_keeps_some:
  assumes "(case load_layer_children E s1 of
              (Some e, s2) \<Rightarrow> (Some e, s2, lg')
            | (None, s2) \<Rightarrow> (case load_table_children E s2 of (r, s3) \<Rightarrow> (r, s3, lg'))) =
             (x, s', lg'')"
    and "fs_layers s1 \<noteq> None" and "fs_tables s1 \<noteq> None"
  shows "fs_layers s' \<noteq> None \<and> fs_tables s' \<noteq> None"
proof -
  obtain r2 s2 where a: "load_layer_children E s1 = (r2, s2)"
    by (cases "load_layer_children E s1")
  have s2: "fs_layers s2 \<noteq> None \<and> fs_tables s2 \<noteq> None"
    using load_children_keep_some(1)[OF a assms(2,3)] .
  show ?thesis
  proof (cases r2)
    case (Some e)
    with a assms(1) s2 show ?thesis by auto
  next
    case None
    obtain r3 s3 where b: "load_table_children E s2 = (r3, s3)"
      by (cases "load_table_children E s2")
    have "fs_layers s3 \<noteq> None \<and> fs_tables s3 \<noteq> None"
      using load_children_keep_some(2)[OF b] s2 by blast
    with a b None assms(1) show ?thesis by auto
  qed
qed

lemma load_layers_cached_some:
  assumes "fs_json_dict s \<noteq> PNone" and "load_layers E s lg = (x, s', lg')"
  shows "fs_layers s' \<noteq> None \<and> fs_tables s' \<noteq> None"
proof -
  let ?s0 = "s\<lparr>fs_layers := Some [], fs_tables := Some []\<rparr>"
  from assms(2) have
    "(case load_layer_children E ?s0 of
        (Some e, s2) \<Rightarrow> (Some e, s2, lg)
      | (None, s2) \<Rightarrow> (case load_table_children E s2 of (r, s3) \<Rightarrow> (r, s3, lg))) =
       (x, s', lg')"
    by (subst (asm) load_layers.simps) (simp add: assms(1))
  then show ?thesis by (rule discover_keeps_some) simp_all
qed

text \<open>The loader leaves the caches as they were, or leaves both set.\<close>

lemma init_caches:
  assumes "FeatureService_init E s lg = (x, s', lg')"
  shows "(fs_layers s' = fs_layers s \<and> fs_tables s' = fs_tables s) \<or>
         (fs_layers s' \<noteq> None \<and> fs_tables s' \<noteq> None)"
  using assms
  apply (subst (asm) FeatureService_init.simps)
  apply (auto simp: send_def split: sum.splits pyval.splits prod.splits option.splits
              dest: load_layers_cached_some[rotated])
  done

text \<open>\<open>_load_layers\<close> leaves both caches set, whether it returns or raises.\<close>

lemma load_layers_some:
  assumes "load_layers E s lg = (x, s', lg')"
  shows "fs_layers s' \<noteq> None \<and> fs_tables s' \<noteq> None"
proof (cases "fs_json_dict s = PNone")
  case False
  then show ?thesis using assms by (rule load_layers_cached_some)
next
  case True
  let ?s0 = "s\<lparr>fs_layers := Some [], fs_tables := Some []\<rparr>"
  obtain r1 s1 lg1 where i: "FeatureService_init E ?s0 lg = (r1, s1, lg1)"
    by (cases "FeatureService_init E ?s0 lg") auto
  from init_caches[OF i] have s1: "fs_layers s1 \<noteq> None \<and> fs_tables s1 \<noteq> None" by auto
  show ?thesis
  proof (cases r1)
    case (Some e)
    with assms True i s1 show ?thesis by (subst (asm) load_layers.simps) auto
  next
    case None
    with assms True i have
      "(case load_layer_children E s1 of
          (Some e, s2) \<Rightarrow> (Some e, s2, lg1)
        | (None, s2) \<Rightarrow> (case load_table_children E s2 of (r, s3) \<Rightarrow> (r, s3, lg1))) =
         (x, s', lg')"
      by (subst (asm) load_layers.simps) simp
    then show ?thesis by (rule discover_keeps_some) (simp_all add: s1)
  qed
qed

lemma reachable_together: "reachable s \<Longrightarrow> (fs_layers s = None \<longleftrightarrow> fs_tables s = None)"
proof (induction rule: reachable.induct)
  case (fresh s)
  then show ?case by simp
next
  case (after_layers s E lg r s' lg')
  then show ?case
    by (auto simp: FeatureService_layers_def split: if_splits prod.splits option.splits
             dest: load_layers_some)
next
  case (after_tables s E lg r s' lg')
  then show ?case
    by (auto simp: FeatureService_tables_def split: if_splits prod.splits option.splits
             dest: load_layers_some)
next
  case (after_refresh s E lg x s' lg')
  then show ?case by (auto simp: refresh_service_def)
next
  case (after_load s E lg x s' lg')
  then show ?case using load_layers_some by blast
next
  case (after_init s E lg x s' lg')
  then show ?case using init_caches[of E s lg x s' lg'] by auto
qed



end
